theory Spec2Isabelle
  imports Complex_Main "HOL-Library.Sublist" "HOL-Library.Multiset"
begin

section \<open>UrbanFlow Navigator: the trip-planning core\<close>

text \<open>
  A shallow embedding of \<^verbatim>\<open>src/services/google-maps.ts\<close>,
  \<^verbatim>\<open>src/services/open-weather-map.ts\<close> and
  \<^verbatim>\<open>src/ai/flows/generate-trip-plan.ts\<close>.

  Conventions of the model:
  \<^item> A JavaScript \<^verbatim>\<open>number\<close> that holds a coordinate, a rating or a temperature is a
    \<open>real\<close>, the exact value of the double; the per-leg metres and seconds of the
    directions provider are \<open>int\<close>.
  \<^item> The search radius is computed in IEEE arithmetic, where a result may be NaN. Its
    numbers are \<open>jsnum\<close>: a finite double or NaN. Every operation of that computation
    rounds its exact result with \<open>roundDouble\<close>, the rounding to the nearest double, which
    the environment supplies together with the engine's sine, cosine and arctangent.
    Infinities are not modelled: no operation of the computation overflows for corners
    given in degrees. The other arithmetic of the code (the midpoint of the bounds, the
    kilometres and minutes of the prompt) is exact in the model.
  \<^item> A thrown value is a \<open>thrown\<close>: an \<^verbatim>\<open>Error\<close> with its message, or something that
    is not an \<^verbatim>\<open>Error\<close>. An \<^verbatim>\<open>async\<close> function returns \<open>thrown + 'a\<close>.
  \<^item> The network is explicit state: the \<open>world\<close> is the list of requests issued so far
    (oldest first), every \<^verbatim>\<open>fetch\<close> appends its request, and what the provider answers
    is an oracle of the environment that may depend on the requests made before.
  \<^item> A field of a provider response is optional exactly where the code tests it for
    presence (\<^verbatim>\<open>!x\<close>, \<^verbatim>\<open>x?.y\<close>, \<^verbatim>\<open>x || d\<close>, \<^verbatim>\<open>x === c\<close>); the other fields have the type
    the code reads them at.
  \<^item> \<^verbatim>\<open>console.log\<close>, \<^verbatim>\<open>console.warn\<close> and \<^verbatim>\<open>console.error\<close> are not modelled.
  \<^item> Field names are the source's; where two interfaces share a name, or the name is a
    constant of the logic, the field carries a short prefix (\<open>d_status\<close>, \<open>p_rating\<close>),
    and \<^verbatim>\<open>WeatherForecast.conditions\<close> is \<open>currentConditions\<close>.
\<close>

subsection \<open>Data model\<close>

record Coordinate =
  lat :: real
  lng :: real

type_synonym Location = Coordinate

record Bounds =
  northeast :: Coordinate
  southwest :: Coordinate

record Route =
  path :: "Coordinate list"
  distanceMeters :: int
  durationSeconds :: int
  bounds :: "Bounds option"
  waypointsOrder :: "int list option"

record Attraction =
  name :: string
  description :: string
  location :: Coordinate
  placeId :: "string option"
  rating :: "real option"
  types :: "string list option"

record DayOutlook =
  date :: string
  temperatureCelsius :: real
  conditions :: string

record WeatherForecast =
  currentTemperatureCelsius :: real
  currentConditions :: string
  fiveDayOutlook :: "DayOutlook list"

subsection \<open>Thrown values and fetch outcomes\<close>

datatype thrown = JsError string | NonError

datatype 'a fetched = Threw thrown | Json 'a

subsection \<open>Provider responses\<close>

record ValueField =
  val :: "int option"

record Leg =
  distance :: "ValueField option"
  duration :: "ValueField option"

record Polyline =
  points :: "string option"

record DirectionsRoute =
  legs :: "Leg list option"
  overview_polyline :: "Polyline option"
  route_bounds :: "Bounds option"
  waypoint_order :: "int list option"

record DirectionsData =
  d_status :: string
  d_error_message :: "string option"
  routes :: "DirectionsRoute list option"

record GeocodeResult =
  geometry_location :: Coordinate
  formatted_address :: string

record GeocodeData =
  g_status :: string
  g_error_message :: "string option"
  g_results :: "GeocodeResult list option"

record Place =
  p_name :: string
  vicinity :: "string option"
  p_types :: "string list option"
  p_location :: Coordinate
  place_id :: "string option"
  p_rating :: "real option"
  business_status :: "string option"

record PlacesData =
  p_status :: string
  p_error_message :: "string option"
  p_results :: "Place list option"

subsection \<open>The reasoning engine's input and output\<close>

record RouteInfo =
  distanceKm :: int
  durationMinutes :: int
  hasWaypoints :: bool

record WeatherSummary =
  ws_currentTemperatureCelsius :: real
  ws_currentConditions :: string
  outlookSummary :: string

record PromptAttraction =
  pa_name :: string
  pa_type :: "string option"
  pa_rating :: "real option"

record PromptInput =
  pi_originAddress :: string
  pi_destinationAddress :: string
  desiredDepartureTime :: string
  routeInfo :: RouteInfo
  pi_weatherForecast :: WeatherSummary
  pi_attractions :: "PromptAttraction list"

record PromptOutput =
  po_suggestedDepartureTime :: "string option"
  po_reasoning :: "string option"

record GenerateTripPlanInput =
  originAddress :: string
  destinationAddress :: string
  departureTime :: string
  waypoints :: "string list option"

record GenerateTripPlanOutput =
  o_originAddress :: string
  o_destinationAddress :: string
  suggestedDepartureTime :: string
  reasoning :: string
  route :: Route
  weatherForecast :: WeatherForecast
  nearbyAttractions :: "Attraction list"

subsection \<open>Requests, the world and the environment\<close>

datatype jsnum = Num real | NaN

datatype request =
    DirectionsRequest Coordinate Coordinate "string option" string
  | GeocodeRequest string string
  | ReverseGeocodeRequest Coordinate string
  | PlacesRequest Coordinate jsnum string string
  | PromptRequest PromptInput

type_synonym world = "request list"

text \<open>
  The environment holds what the module reads from outside itself: the credential
  \<^verbatim>\<open>process.env.GOOGLE_MAPS_API_KEY\<close>, the answers of the three HTTP endpoints (the
  outcome of \<^verbatim>\<open>fetch\<close> followed by \<^verbatim>\<open>response.json()\<close>) and of the prompt, the
  polyline decoder of \<^verbatim>\<open>@googlemaps/polyline-codec\<close>, the two built-ins whose
  output depends on number and locale formatting (\<^verbatim>\<open>JSON.stringify\<close> of a coordinate,
  \<^verbatim>\<open>toLocaleDateString\<close> with a short weekday), and the arithmetic of the engine: the
  rounding of an exact result to the nearest double, and \<^verbatim>\<open>Math.sin\<close>, \<^verbatim>\<open>Math.cos\<close> and
  \<^verbatim>\<open>Math.atan2\<close> on finite doubles.
\<close>

record env =
  API_KEY :: "string option"
  fetchDirections :: "world \<Rightarrow> request \<Rightarrow> DirectionsData fetched"
  fetchGeocode :: "world \<Rightarrow> request \<Rightarrow> GeocodeData fetched"
  fetchPlaces :: "world \<Rightarrow> request \<Rightarrow> PlacesData fetched"
  generateTripPlanPrompt :: "world \<Rightarrow> PromptInput \<Rightarrow> PromptOutput option fetched"
  decode :: "string \<Rightarrow> nat \<Rightarrow> (real \<times> real) list"
  stringifyCoordinate :: "Coordinate \<Rightarrow> string"
  weekdayShort :: "string \<Rightarrow> string"
  roundDouble :: "real \<Rightarrow> real"
  sinDouble :: "real \<Rightarrow> real"
  cosDouble :: "real \<Rightarrow> real"
  atan2Double :: "real \<Rightarrow> real \<Rightarrow> real"

subsection \<open>JavaScript helpers\<close>

text \<open>\<^verbatim>\<open>s || d\<close> on an optional string: \<^verbatim>\<open>undefined\<close> and the empty string are falsy.\<close>

definition str_or :: "string option \<Rightarrow> string \<Rightarrow> string" where
  "str_or s d = (case s of None \<Rightarrow> d | Some t \<Rightarrow> if t = [] then d else t)"

text \<open>\<^verbatim>\<open>!s\<close> on an optional string.\<close>

definition falsy_str :: "string option \<Rightarrow> bool" where
  "falsy_str s = (case s of None \<Rightarrow> True | Some t \<Rightarrow> t = [])"

text \<open>\<^verbatim>\<open>Array.prototype.join\<close>.\<close>

fun join :: "string \<Rightarrow> string list \<Rightarrow> string" where
  "join sep [] = []"
| "join sep [x] = x"
| "join sep (x # y # ys) = x @ sep @ join sep (y # ys)"

text \<open>\<^verbatim>\<open>s.replace(/_/g, ' ')\<close>.\<close>

definition underscores_to_spaces :: "string \<Rightarrow> string" where
  "underscores_to_spaces s = map (\<lambda>c. if c = CHR ''_'' then CHR '' '' else c) s"

subsection \<open>The credential check\<close>

definition SERVER_CONFIG_ERROR_MSG :: string where
  "SERVER_CONFIG_ERROR_MSG = ''Server Configuration Error: Google Maps API key (GOOGLE_MAPS_API_KEY) is not configured. Please ensure it is correctly set in your `.env.local` file and that the server has been restarted.''"

text \<open>\<^verbatim>\<open>checkApiKey\<close>: throws when \<^verbatim>\<open>!API_KEY\<close>; otherwise the caller goes on with the key.\<close>

definition checkApiKey :: "env \<Rightarrow> thrown + string" where
  "checkApiKey e =
     (if falsy_str (API_KEY e) then Inl (JsError SERVER_CONFIG_ERROR_MSG)
      else Inr (the (API_KEY e)))"

subsection \<open>findShortestRoute\<close>

text \<open>The \<^verbatim>\<open>waypoints\<close> query parameter (source lines 128 to 142).\<close>

definition waypointsQuery :: "string list option \<Rightarrow> string option" where
  "waypointsQuery wps =
     (case wps of
        None \<Rightarrow> None
      | Some ws \<Rightarrow>
          if length ws > 0 then
            (let validWaypoints = filter (\<lambda>wp. prefix ''place_id:'' wp) ws
             in if length validWaypoints > 0
                then Some (''optimize:true|'' @ join ''|'' validWaypoints)
                else None)
          else None)"

text \<open>\<^verbatim>\<open>waypoints && waypoints.length > 0\<close>.\<close>

definition hasStops :: "string list option \<Rightarrow> bool" where
  "hasStops wps = (case wps of None \<Rightarrow> False | Some ws \<Rightarrow> length ws > 0)"

text \<open>The error thrown for a status other than \<^verbatim>\<open>OK\<close> (source lines 157 to 179).\<close>

definition directionsStatusError :: "DirectionsData \<Rightarrow> string list option \<Rightarrow> string" where
  "directionsStatusError data wps =
     (if d_status data = ''REQUEST_DENIED'' then
        ''Directions API Error: Request Denied. '' @
          str_or (d_error_message data)
            ''Check if the Directions API is enabled and authorized for your GOOGLE_MAPS_API_KEY.''
      else if d_status data = ''ZERO_RESULTS'' \<and> hasStops wps then
        ''Directions API Error: No route found including the specified waypoints. Status: '' @
          d_status data @ ''.''
      else if d_status data = ''INVALID_REQUEST'' then
        ''Directions API Error: Invalid Request. '' @
          str_or (d_error_message data) ''Check origin, destination, and waypoint format.''
      else if d_status data = ''MAX_WAYPOINTS_EXCEEDED'' then
        ''Directions API Error: Too many waypoints provided. '' @ str_or (d_error_message data) []
      else if d_status data = ''OVER_QUERY_LIMIT'' then
        ''Directions API Error: Usage limit exceeded. '' @
          str_or (d_error_message data) ''Check your Google Cloud Console quotas.''
      else
        ''Could not find route. Status: '' @ d_status data @ ''. '' @
          str_or (d_error_message data) [])"

text \<open>
  The \<^verbatim>\<open>forEach\<close> over the legs (source lines 195 to 200): the two running totals are
  the loop's state, and \<^verbatim>\<open>leg.distance?.value || 0\<close> is \<open>0\<close> for an absent or zero value.
\<close>

definition legValue :: "ValueField option \<Rightarrow> int" where
  "legValue f =
     (case f of
        None \<Rightarrow> 0
      | Some v \<Rightarrow> (case val v of None \<Rightarrow> 0 | Some n \<Rightarrow> if n = 0 then 0 else n))"

fun sumLegs :: "Leg list \<Rightarrow> int \<times> int \<Rightarrow> int \<times> int" where
  "sumLegs [] totals = totals"
| "sumLegs (leg # rest) (totalDistanceMeters, totalDurationSeconds) =
     sumLegs rest
       (totalDistanceMeters + legValue (distance leg),
        totalDurationSeconds + legValue (duration leg))"

text \<open>
  \<^verbatim>\<open>!route.legs || !route.overview_polyline?.points || !route.bounds\<close> (source line
  189). An array and an object are truthy; an absent or empty string is falsy.
\<close>

definition missingRequiredFields :: "DirectionsRoute \<Rightarrow> bool" where
  "missingRequiredFields r =
     (legs r = None
      \<or> falsy_str (case overview_polyline r of None \<Rightarrow> None | Some pl \<Rightarrow> points pl)
      \<or> route_bounds r = None)"

text \<open>The body of the \<^verbatim>\<open>try\<close> block once the response has arrived (source lines 157 to 220).\<close>

definition directionsBody :: "env \<Rightarrow> string list option \<Rightarrow> DirectionsData \<Rightarrow> thrown + Route" where
  "directionsBody e wps data =
     (if d_status data \<noteq> ''OK'' then Inl (JsError (directionsStatusError data wps))
      else
        (case routes data of
           None \<Rightarrow> Inl (JsError ''Could not find route. Status: ZERO_RESULTS.'')
         | Some [] \<Rightarrow> Inl (JsError ''Could not find route. Status: ZERO_RESULTS.'')
         | Some (r # _) \<Rightarrow>
             if missingRequiredFields r then
               Inl (JsError ''Directions API response missing required fields.'')
             else
               (let (totalDistanceMeters, totalDurationSeconds) = sumLegs (the (legs r)) (0, 0);
                    decodedPath =
                      map (\<lambda>(la, ln). \<lparr>lat = la, lng = ln\<rparr>)
                        (decode e (the (points (the (overview_polyline r)))) 5);
                    waypointsOrder = waypoint_order r
                in Inr \<lparr>path = decodedPath,
                        distanceMeters = totalDistanceMeters,
                        durationSeconds = totalDurationSeconds,
                        bounds =
                          Some \<lparr>northeast = northeast (the (route_bounds r)),
                                southwest = southwest (the (route_bounds r))\<rparr>,
                        waypointsOrder = waypointsOrder\<rparr>)))"

text \<open>The \<^verbatim>\<open>catch\<close> block (source lines 221 to 238).\<close>

definition directionsCatch :: "thrown \<Rightarrow> thrown" where
  "directionsCatch err =
     (case err of
        JsError m \<Rightarrow>
          if m = SERVER_CONFIG_ERROR_MSG then err
          else if prefix ''Could not find route'' m \<or> prefix ''Directions API Error:'' m then err
          else JsError (''Failed to fetch directions: '' @ m)
      | NonError \<Rightarrow> JsError ''An unknown error occurred while fetching directions.'')"

definition findShortestRoute ::
  "env \<Rightarrow> Coordinate \<Rightarrow> Coordinate \<Rightarrow> string list option \<Rightarrow> world \<Rightarrow> (thrown + Route) \<times> world" where
  "findShortestRoute e origin destination wps w =
     (case checkApiKey e of
        Inl err \<Rightarrow> (Inl err, w)
      | Inr key \<Rightarrow>
          (let req = DirectionsRequest origin destination (waypointsQuery wps) key;
               tried =
                 (case fetchDirections e w req of
                    Threw err \<Rightarrow> Inl err
                  | Json data \<Rightarrow> directionsBody e wps data)
           in (case tried of Inl err \<Rightarrow> Inl (directionsCatch err) | Inr r \<Rightarrow> Inr r,
               w @ [req])))"

subsection \<open>getCoordinatesFromAddress\<close>

definition geocodeStatusError :: "GeocodeData \<Rightarrow> string \<Rightarrow> string" where
  \<open>geocodeStatusError data address =
     (if g_status data = ''REQUEST_DENIED'' then
        ''Geocoding API Error: Request Denied for address "'' @ address @ ''". '' @
          str_or (g_error_message data)
            ''Check if the Geocoding API is enabled and authorized for your GOOGLE_MAPS_API_KEY.''
      else if g_status data = ''ZERO_RESULTS'' then
        ''Geocoding API Error: No results found for address "'' @ address @
          ''". Please ensure the address is valid.''
      else if g_status data = ''OVER_QUERY_LIMIT'' then
        ''Geocoding API Error: Usage limit exceeded. '' @
          str_or (g_error_message data) ''Check your Google Cloud Console quotas.''
      else
        ''Could not geocode address "'' @ address @ ''". Status: '' @ g_status data @ ''. '' @
          str_or (g_error_message data) [])\<close>

definition geocodeBody :: "string \<Rightarrow> GeocodeData \<Rightarrow> thrown + Coordinate" where
  \<open>geocodeBody address data =
     (if g_status data \<noteq> ''OK'' then Inl (JsError (geocodeStatusError data address))
      else
        (case g_results data of
           None \<Rightarrow>
             Inl (JsError (''Could not geocode address "'' @ address @
                           ''". Status: ZERO_RESULTS (unexpected).''))
         | Some [] \<Rightarrow>
             Inl (JsError (''Could not geocode address "'' @ address @
                           ''". Status: ZERO_RESULTS (unexpected).''))
         | Some (r # _) \<Rightarrow> Inr (geometry_location r)))\<close>

definition geocodeCatch :: "thrown \<Rightarrow> thrown" where
  "geocodeCatch err =
     (case err of
        JsError m \<Rightarrow>
          if m = SERVER_CONFIG_ERROR_MSG then err
          else if prefix ''Could not geocode address'' m \<or> prefix ''Geocoding API Error:'' m
          then err
          else JsError (''Failed to geocode address: '' @ m)
      | NonError \<Rightarrow> JsError ''An unknown error occurred during geocoding.'')"

definition getCoordinatesFromAddress ::
  "env \<Rightarrow> string \<Rightarrow> world \<Rightarrow> (thrown + Coordinate) \<times> world" where
  "getCoordinatesFromAddress e address w =
     (case checkApiKey e of
        Inl err \<Rightarrow> (Inl err, w)
      | Inr key \<Rightarrow>
          (let req = GeocodeRequest address key;
               tried =
                 (case fetchGeocode e w req of
                    Threw err \<Rightarrow> Inl err
                  | Json data \<Rightarrow> geocodeBody address data)
           in (case tried of Inl err \<Rightarrow> Inl (geocodeCatch err) | Inr c \<Rightarrow> Inr c,
               w @ [req])))"

subsection \<open>getAddressFromCoordinates\<close>

definition reverseStatusError :: "env \<Rightarrow> GeocodeData \<Rightarrow> Coordinate \<Rightarrow> string" where
  "reverseStatusError e data coordinate =
     (if g_status data = ''REQUEST_DENIED'' then
        ''Reverse Geocoding API Error: Request Denied for coordinates '' @
          stringifyCoordinate e coordinate @ ''. '' @
          str_or (g_error_message data)
            ''Check if the Geocoding API is enabled and authorized for your GOOGLE_MAPS_API_KEY.''
      else if g_status data = ''ZERO_RESULTS'' then
        ''Reverse Geocoding API Error: No address found for coordinates '' @
          stringifyCoordinate e coordinate @ ''.''
      else if g_status data = ''OVER_QUERY_LIMIT'' then
        ''Reverse Geocoding API Error: Usage limit exceeded. '' @
          str_or (g_error_message data) ''Check your Google Cloud Console quotas.''
      else
        ''Could not reverse geocode coordinates '' @ stringifyCoordinate e coordinate @
          ''. Status: '' @ g_status data @ ''. '' @ str_or (g_error_message data) [])"

definition reverseBody :: "env \<Rightarrow> Coordinate \<Rightarrow> GeocodeData \<Rightarrow> thrown + string" where
  "reverseBody e coordinate data =
     (if g_status data \<noteq> ''OK'' then Inl (JsError (reverseStatusError e data coordinate))
      else
        (case g_results data of
           None \<Rightarrow>
             Inl (JsError (''Could not find address for coordinates '' @
                           stringifyCoordinate e coordinate @
                           ''. Status: ZERO_RESULTS (unexpected).''))
         | Some [] \<Rightarrow>
             Inl (JsError (''Could not find address for coordinates '' @
                           stringifyCoordinate e coordinate @
                           ''. Status: ZERO_RESULTS (unexpected).''))
         | Some (r # _) \<Rightarrow> Inr (formatted_address r)))"

definition reverseCatch :: "thrown \<Rightarrow> thrown" where
  "reverseCatch err =
     (case err of
        JsError m \<Rightarrow>
          if m = SERVER_CONFIG_ERROR_MSG then err
          else if prefix ''Could not reverse geocode'' m
                  \<or> prefix ''Reverse Geocoding API Error:'' m
          then err
          else JsError (''Failed to reverse geocode coordinates: '' @ m)
      | NonError \<Rightarrow> JsError ''An unknown error occurred during reverse geocoding.'')"

definition getAddressFromCoordinates ::
  "env \<Rightarrow> Coordinate \<Rightarrow> world \<Rightarrow> (thrown + string) \<times> world" where
  "getAddressFromCoordinates e coordinate w =
     (case checkApiKey e of
        Inl err \<Rightarrow> (Inl err, w)
      | Inr key \<Rightarrow>
          (let req = ReverseGeocodeRequest coordinate key;
               tried =
                 (case fetchGeocode e w req of
                    Threw err \<Rightarrow> Inl err
                  | Json data \<Rightarrow> reverseBody e coordinate data)
           in (case tried of Inl err \<Rightarrow> Inl (reverseCatch err) | Inr a \<Rightarrow> Inr a,
               w @ [req])))"

subsection \<open>findAttractionsNearCoordinate\<close>

definition placesStatusError :: "PlacesData \<Rightarrow> string" where
  "placesStatusError data =
     (if p_status data = ''REQUEST_DENIED'' then
        ''Places API Error: Request Denied. '' @
          str_or (p_error_message data)
            ''Check if the Places API is enabled and authorized for your GOOGLE_MAPS_API_KEY.''
      else if p_status data = ''INVALID_REQUEST'' then
        ''Places API Error: Invalid Request. '' @
          str_or (p_error_message data) ''Check search parameters.''
      else if p_status data = ''OVER_QUERY_LIMIT'' then
        ''Places API Error: Usage limit exceeded. '' @
          str_or (p_error_message data) ''Check your Google Cloud Console quotas.''
      else
        ''Places API request failed. Status: '' @ p_status data @ ''. '' @
          str_or (p_error_message data) [])"

text \<open>
  The filter predicate of source line 443:
  \<^verbatim>\<open>place.rating && place.rating >= 3.5 && place.business_status === 'OPERATIONAL'\<close>.
  A rating of \<open>0\<close> is falsy.
\<close>

definition keepPlace :: "Place \<Rightarrow> bool" where
  "keepPlace place =
     (case p_rating place of
        None \<Rightarrow> False
      | Some r \<Rightarrow> r \<noteq> 0 \<and> r \<ge> 3.5 \<and> business_status place = Some ''OPERATIONAL'')"

text \<open>The description fallback chain of source line 448.\<close>

definition placeDescription :: "Place \<Rightarrow> string" where
  "placeDescription place =
     (if \<not> falsy_str (vicinity place) then the (vicinity place)
      else
        (case p_types place of
           None \<Rightarrow> ''Notable place''
         | Some ts \<Rightarrow>
             (let shown =
                    underscores_to_spaces
                      (join '', ''
                         (filter (\<lambda>t. t \<noteq> ''point_of_interest'' \<and> t \<noteq> ''establishment'') ts))
              in if shown = [] then ''Notable place'' else shown)))"

definition toAttraction :: "Place \<Rightarrow> Attraction" where
  "toAttraction place =
     \<lparr>name = p_name place,
      description = placeDescription place,
      location = p_location place,
      placeId = place_id place,
      rating = p_rating place,
      types = p_types place\<rparr>"

text \<open>Source lines 419 to 456; \<^verbatim>\<open>filter\<close>, then \<^verbatim>\<open>slice(0, 15)\<close>, then \<^verbatim>\<open>map\<close>.\<close>

definition placesBody :: "PlacesData \<Rightarrow> thrown + Attraction list" where
  "placesBody data =
     (if p_status data \<noteq> ''OK'' \<and> p_status data \<noteq> ''ZERO_RESULTS'' then
        Inl (JsError (placesStatusError data))
      else if p_status data = ''ZERO_RESULTS'' then Inr []
      else
        (case p_results data of
           None \<Rightarrow> Inr []
         | Some results \<Rightarrow> Inr (map toAttraction (take 15 (filter keepPlace results)))))"

definition placesCatch :: "thrown \<Rightarrow> thrown" where
  "placesCatch err =
     (case err of
        JsError m \<Rightarrow>
          if m = SERVER_CONFIG_ERROR_MSG then err
          else if prefix ''Places API Error:'' m then err
          else JsError (''Failed to find attractions: '' @ m)
      | NonError \<Rightarrow> JsError ''An unknown error occurred while finding attractions.'')"

text \<open>
  The source gives \<^verbatim>\<open>radius\<close> the default \<open>15000\<close>; both callers pass a radius, and
  the model takes it as an argument.
\<close>

definition PLACES_KEYWORD :: string where
  "PLACES_KEYWORD = ''famous attraction point of interest landmark museum park''"

definition findAttractionsNearCoordinate ::
  "env \<Rightarrow> Coordinate \<Rightarrow> jsnum \<Rightarrow> world \<Rightarrow> (thrown + Attraction list) \<times> world" where
  "findAttractionsNearCoordinate e center radius w =
     (case checkApiKey e of
        Inl err \<Rightarrow> (Inl err, w)
      | Inr key \<Rightarrow>
          (let req = PlacesRequest center radius PLACES_KEYWORD key;
               tried =
                 (case fetchPlaces e w req of
                    Threw err \<Rightarrow> Inl err
                  | Json data \<Rightarrow> placesBody data)
           in (case tried of Inl err \<Rightarrow> Inl (placesCatch err) | Inr as \<Rightarrow> Inr as,
               w @ [req])))"

subsection \<open>findAttractionsNearRoute\<close>

text \<open>
  The arithmetic of the radius. An operation on two finite doubles is the exact result,
  rounded; an operation with a NaN operand is NaN; the square root of a negative number
  is NaN. Division by zero, an infinity or NaN in the language, is NaN here: the code
  divides by the literals \<open>180\<close>, \<open>2\<close> and \<open>1.8\<close> only.
\<close>

definition num_add :: "env \<Rightarrow> jsnum \<Rightarrow> jsnum \<Rightarrow> jsnum" where
  "num_add e x y = (case (x, y) of (Num a, Num b) \<Rightarrow> Num (roundDouble e (a + b)) | _ \<Rightarrow> NaN)"

definition num_sub :: "env \<Rightarrow> jsnum \<Rightarrow> jsnum \<Rightarrow> jsnum" where
  "num_sub e x y = (case (x, y) of (Num a, Num b) \<Rightarrow> Num (roundDouble e (a - b)) | _ \<Rightarrow> NaN)"

definition num_mul :: "env \<Rightarrow> jsnum \<Rightarrow> jsnum \<Rightarrow> jsnum" where
  "num_mul e x y = (case (x, y) of (Num a, Num b) \<Rightarrow> Num (roundDouble e (a * b)) | _ \<Rightarrow> NaN)"

definition num_div :: "env \<Rightarrow> jsnum \<Rightarrow> jsnum \<Rightarrow> jsnum" where
  "num_div e x y =
     (case (x, y) of
        (Num a, Num b) \<Rightarrow> if b = 0 then NaN else Num (roundDouble e (a / b))
      | _ \<Rightarrow> NaN)"

definition Math_sqrt :: "env \<Rightarrow> jsnum \<Rightarrow> jsnum" where
  "Math_sqrt e x =
     (case x of Num a \<Rightarrow> if a < 0 then NaN else Num (roundDouble e (sqrt a)) | NaN \<Rightarrow> NaN)"

definition Math_sin :: "env \<Rightarrow> jsnum \<Rightarrow> jsnum" where
  "Math_sin e x = (case x of Num a \<Rightarrow> Num (sinDouble e a) | NaN \<Rightarrow> NaN)"

definition Math_cos :: "env \<Rightarrow> jsnum \<Rightarrow> jsnum" where
  "Math_cos e x = (case x of Num a \<Rightarrow> Num (cosDouble e a) | NaN \<Rightarrow> NaN)"

definition Math_atan2 :: "env \<Rightarrow> jsnum \<Rightarrow> jsnum \<Rightarrow> jsnum" where
  "Math_atan2 e y x = (case (y, x) of (Num a, Num b) \<Rightarrow> Num (atan2Double e a b) | _ \<Rightarrow> NaN)"

text \<open>
  \<^verbatim>\<open>Math.max\<close>, \<^verbatim>\<open>Math.min\<close> and \<^verbatim>\<open>Math.round\<close> are exact on finite doubles and give NaN
  for NaN. \<^verbatim>\<open>Math.round\<close> is \<open>\<lfloor>x + 1/2\<rfloor>\<close>, which is \<^const>\<open>round\<close>.
\<close>

definition Math_max :: "jsnum \<Rightarrow> jsnum \<Rightarrow> jsnum" where
  "Math_max x y = (case (x, y) of (Num a, Num b) \<Rightarrow> Num (max a b) | _ \<Rightarrow> NaN)"

definition Math_min :: "jsnum \<Rightarrow> jsnum \<Rightarrow> jsnum" where
  "Math_min x y = (case (x, y) of (Num a, Num b) \<Rightarrow> Num (min a b) | _ \<Rightarrow> NaN)"

definition Math_round :: "jsnum \<Rightarrow> jsnum" where
  "Math_round x = (case x of Num a \<Rightarrow> Num (real_of_int (round a)) | NaN \<Rightarrow> NaN)"

text \<open>
  \<^verbatim>\<open>Math.PI\<close> and the literal \<^verbatim>\<open>1.8\<close> are doubles: the ones nearest to \<open>\<pi>\<close> and to
  \<open>18/10\<close>. The other literals of the computation are integers.
\<close>

definition MATH_PI :: real where
  "MATH_PI = 884279719003555 / 281474976710656"

definition LITERAL_1_8 :: real where
  "LITERAL_1_8 = 8106479329266893 / 4503599627370496"

text \<open>The Haversine term \<^verbatim>\<open>a\<close> of source lines 525 to 532.\<close>

definition haversineA :: "env \<Rightarrow> Bounds \<Rightarrow> jsnum" where
  "haversineA e b =
     (let phi1 = num_div e (num_mul e (Num (lat (southwest b))) (Num MATH_PI)) (Num 180);
          phi2 = num_div e (num_mul e (Num (lat (northeast b))) (Num MATH_PI)) (Num 180);
          deltaPhi =
            num_div e
              (num_mul e (num_sub e (Num (lat (northeast b))) (Num (lat (southwest b))))
                 (Num MATH_PI))
              (Num 180);
          deltaLambda =
            num_div e
              (num_mul e (num_sub e (Num (lng (northeast b))) (Num (lng (southwest b))))
                 (Num MATH_PI))
              (Num 180)
      in num_add e
           (num_mul e (Math_sin e (num_div e deltaPhi (Num 2)))
              (Math_sin e (num_div e deltaPhi (Num 2))))
           (num_mul e
              (num_mul e
                 (num_mul e (Math_cos e phi1) (Math_cos e phi2))
                 (Math_sin e (num_div e deltaLambda (Num 2))))
              (Math_sin e (num_div e deltaLambda (Num 2)))))"

text \<open>\<^verbatim>\<open>diagonalDistance\<close> (source lines 524, 533 and 534).\<close>

definition diagonalDistance :: "env \<Rightarrow> Bounds \<Rightarrow> jsnum" where
  "diagonalDistance e b =
     (let R = Num 6371000;
          a = haversineA e b;
          c = num_mul e (Num 2)
                (Math_atan2 e (Math_sqrt e a) (Math_sqrt e (num_sub e (Num 1) a)))
      in num_mul e R c)"

text \<open>\<^verbatim>\<open>radius\<close> (source line 538).\<close>

definition searchRadius :: "env \<Rightarrow> Bounds \<Rightarrow> jsnum" where
  "searchRadius e b =
     Math_min (Math_max (num_div e (diagonalDistance e b) (Num LITERAL_1_8)) (Num 10000))
       (Num 50000)"

text \<open>\<^verbatim>\<open>centerCoord\<close> (source lines 518 to 520).\<close>

definition centerCoord :: "Bounds \<Rightarrow> Coordinate" where
  "centerCoord b =
     \<lparr>lat = (lat (northeast b) + lat (southwest b)) / 2,
      lng = (lng (northeast b) + lng (southwest b)) / 2\<rparr>"

text \<open>
  The two \<^verbatim>\<open>catch\<close> blocks of \<^verbatim>\<open>findAttractionsNearRoute\<close> (source lines 501 to 510 and
  546 to 554) are the same: the configuration error is thrown again, anything else
  becomes the empty array.
\<close>

definition nearRouteCatch :: "thrown \<Rightarrow> thrown + Attraction list" where
  "nearRouteCatch err =
     (case err of
        JsError m \<Rightarrow> if m = SERVER_CONFIG_ERROR_MSG then Inl err else Inr []
      | NonError \<Rightarrow> Inr [])"

definition findAttractionsNearRoute ::
  "env \<Rightarrow> Route \<Rightarrow> world \<Rightarrow> (thrown + Attraction list) \<times> world" where
  "findAttractionsNearRoute e rt w =
     (case bounds rt of
        None \<Rightarrow>
          if length (path rt) > 0 then
            (let midPointIndex = length (path rt) div 2;
                 midPoint = path rt ! midPointIndex
             in (case findAttractionsNearCoordinate e midPoint (Num 20000) w of
                   (Inl err, w') \<Rightarrow> (nearRouteCatch err, w')
                 | (Inr as, w') \<Rightarrow> (Inr as, w')))
          else (Inr [], w)
      | Some b \<Rightarrow>
          (case findAttractionsNearCoordinate e (centerCoord b)
                  (Math_round (searchRadius e b)) w of
             (Inl err, w') \<Rightarrow> (nearRouteCatch err, w')
           | (Inr as, w') \<Rightarrow> (Inr as, w')))"

subsection \<open>getWeatherForecast\<close>

text \<open>
  The weather service is a stub (\<^verbatim>\<open>// TODO: Implement this by calling the OpenWeatherMap
  API\<close>): it reads no credential, issues no request and returns a literal.
\<close>

definition getWeatherForecast :: "Location \<Rightarrow> thrown + WeatherForecast" where
  "getWeatherForecast loc =
     Inr \<lparr>currentTemperatureCelsius = 23,
          currentConditions = ''Partly Cloudy'',
          fiveDayOutlook =
            [\<lparr>date = ''2024-07-29'', temperatureCelsius = 25, conditions = ''Sunny''\<rparr>,
             \<lparr>date = ''2024-07-30'', temperatureCelsius = 27, conditions = ''Sunny''\<rparr>,
             \<lparr>date = ''2024-07-31'', temperatureCelsius = 26, conditions = ''Cloudy''\<rparr>,
             \<lparr>date = ''2024-08-01'', temperatureCelsius = 24, conditions = ''Rainy''\<rparr>,
             \<lparr>date = ''2024-08-02'', temperatureCelsius = 23, conditions = ''Partly Cloudy''\<rparr>]\<rparr>"

subsection \<open>generateTripPlanFlow\<close>

text \<open>\<^verbatim>\<open>input.waypoints?.includes(id)\<close>, read as a condition: \<^verbatim>\<open>undefined\<close> is falsy.\<close>

definition waypointsInclude :: "string list option \<Rightarrow> string \<Rightarrow> bool" where
  "waypointsInclude wps x = (case wps of None \<Rightarrow> False | Some ws \<Rightarrow> x \<in> set ws)"

text \<open>\<^verbatim>\<open>att.types?.[0]?.replace(/_/g, ' ')\<close>.\<close>

definition primaryType :: "Attraction \<Rightarrow> string option" where
  "primaryType att =
     (case types att of
        None \<Rightarrow> None
      | Some [] \<Rightarrow> None
      | Some (t # _) \<Rightarrow> Some (underscores_to_spaces t))"

text \<open>The attractions kept for the prompt (source lines 202 to 204).\<close>

definition promptCandidates :: "GenerateTripPlanInput \<Rightarrow> Attraction list \<Rightarrow> Attraction list" where
  "promptCandidates input nearby =
     take 5 (filter (\<lambda>att. \<not> waypointsInclude (waypoints input) (str_or (placeId att) [])) nearby)"

definition condense :: "Attraction \<Rightarrow> PromptAttraction" where
  "condense att = \<lparr>pa_name = name att, pa_type = primaryType att, pa_rating = rating att\<rparr>"

text \<open>\<^verbatim>\<open>promptInput\<close> (source lines 185 to 210).\<close>

definition promptInput ::
  "env \<Rightarrow> GenerateTripPlanInput \<Rightarrow> Route \<Rightarrow> WeatherForecast \<Rightarrow> Attraction list \<Rightarrow> PromptInput" where
  "promptInput e input rt forecast nearby =
     \<lparr>pi_originAddress = originAddress input,
      pi_destinationAddress = destinationAddress input,
      desiredDepartureTime = departureTime input,
      routeInfo =
        \<lparr>distanceKm = round (real_of_int (distanceMeters rt) / 1000),
         durationMinutes = round (real_of_int (durationSeconds rt) / 60),
         hasWaypoints = hasStops (waypoints input)\<rparr>,
      pi_weatherForecast =
        \<lparr>ws_currentTemperatureCelsius = currentTemperatureCelsius forecast,
         ws_currentConditions = currentConditions forecast,
         outlookSummary =
           (let summary =
                  join '', ''
                    (map (\<lambda>day. weekdayShort e (date day) @ '': '' @ conditions day)
                       (fiveDayOutlook forecast))
            in if summary = [] then ''No outlook available.'' else summary)\<rparr>,
      pi_attractions = map condense (promptCandidates input nearby)\<rparr>"

text \<open>\<^verbatim>\<open>!output?.suggestedDepartureTime || !output?.reasoning\<close> (source line 216).\<close>

definition incompleteOutput :: "PromptOutput option \<Rightarrow> bool" where
  "incompleteOutput output =
     (case output of
        None \<Rightarrow> True
      | Some out \<Rightarrow> falsy_str (po_suggestedDepartureTime out) \<or> falsy_str (po_reasoning out))"

text \<open>The \<^verbatim>\<open>try\<close> block of the flow (source lines 163 to 231).\<close>

definition flowBody ::
  "env \<Rightarrow> GenerateTripPlanInput \<Rightarrow> world \<Rightarrow> (thrown + GenerateTripPlanOutput) \<times> world" where
  "flowBody e input w =
     (case getCoordinatesFromAddress e (originAddress input) w of
        (Inl err, w1) \<Rightarrow> (Inl err, w1)
      | (Inr originCoord, w1) \<Rightarrow>
     (case getCoordinatesFromAddress e (destinationAddress input) w1 of
        (Inl err, w2) \<Rightarrow> (Inl err, w2)
      | (Inr destinationCoord, w2) \<Rightarrow>
     (let waypointsParam =
            (case waypoints input of
               None \<Rightarrow> []
             | Some ids \<Rightarrow> map (\<lambda>id. ''place_id:'' @ id) ids)
      in
     (case findShortestRoute e originCoord destinationCoord (Some waypointsParam) w2 of
        (Inl err, w3) \<Rightarrow> (Inl err, w3)
      | (Inr rt, w3) \<Rightarrow>
     (case getWeatherForecast originCoord of
        Inl err \<Rightarrow> (Inl err, w3)
      | Inr forecast \<Rightarrow>
     (case findAttractionsNearRoute e rt w3 of
        (Inl err, w4) \<Rightarrow> (Inl err, w4)
      | (Inr nearby, w4) \<Rightarrow>
     (let pin = promptInput e input rt forecast nearby;
          w5 = w4 @ [PromptRequest pin]
      in
     (case generateTripPlanPrompt e w4 pin of
        Threw err \<Rightarrow> (Inl err, w5)
      | Json output \<Rightarrow>
          if incompleteOutput output then
            (Inl (JsError ''AI failed to generate a valid suggestion or reasoning.''), w5)
          else
            (Inr \<lparr>o_originAddress = originAddress input,
                  o_destinationAddress = destinationAddress input,
                  suggestedDepartureTime = the (po_suggestedDepartureTime (the output)),
                  reasoning = the (po_reasoning (the output)),
                  route = rt,
                  weatherForecast = forecast,
                  nearbyAttractions = nearby\<rparr>, w5)))))))))"

text \<open>The \<^verbatim>\<open>catch\<close> block of the flow (source lines 232 to 239).\<close>

definition flowCatch :: "thrown \<Rightarrow> thrown" where
  "flowCatch err =
     (case err of
        JsError m \<Rightarrow> JsError (''Trip plan generation failed: '' @ m)
      | NonError \<Rightarrow> JsError ''An unknown error occurred during trip plan generation.'')"

definition generateTripPlanFlow ::
  "env \<Rightarrow> GenerateTripPlanInput \<Rightarrow> world \<Rightarrow> (thrown + GenerateTripPlanOutput) \<times> world" where
  "generateTripPlanFlow e input w =
     (case flowBody e input w of
        (Inl err, w') \<Rightarrow> (Inl (flowCatch err), w')
      | (Inr result, w') \<Rightarrow> (Inr result, w'))"

definition generateTripPlan ::
  "env \<Rightarrow> GenerateTripPlanInput \<Rightarrow> world \<Rightarrow> (thrown + GenerateTripPlanOutput) \<times> world" where
  "generateTripPlan e input w = generateTripPlanFlow e input w"

subsection \<open>Concrete environments\<close>

text \<open>
  A provider that answers every request the same way: one route of two legs through one
  stop, one geocoding result, four places of which two pass the filter, and a complete
  recommendation. Its arithmetic is exact: nothing is rounded, and the sine, cosine and
  arctangent are those of the reals. The variants below change one answer each.
\<close>

definition atan2 :: "real \<Rightarrow> real \<Rightarrow> real" where
  "atan2 y x =
     (if x > 0 then arctan (y / x)
      else if x < 0 \<and> y \<ge> 0 then arctan (y / x) + pi
      else if x < 0 \<and> y < 0 then arctan (y / x) - pi
      else if y > 0 then pi / 2
      else if y < 0 then - (pi / 2)
      else 0)"

definition demoLegs :: "Leg list" where
  "demoLegs =
     [\<lparr>distance = Some \<lparr>val = Some 1200\<rparr>, duration = Some \<lparr>val = Some 90\<rparr>\<rparr>,
      \<lparr>distance = Some \<lparr>val = Some 800\<rparr>, duration = Some \<lparr>val = Some 30\<rparr>\<rparr>]"

definition demoBounds :: Bounds where
  "demoBounds = \<lparr>northeast = \<lparr>lat = 1, lng = 1\<rparr>, southwest = \<lparr>lat = 0, lng = 0\<rparr>\<rparr>"

definition demoDirectionsRoute :: DirectionsRoute where
  "demoDirectionsRoute =
     \<lparr>legs = Some demoLegs,
      overview_polyline = Some \<lparr>points = Some ''_ibE_ibE''\<rparr>,
      route_bounds = Some demoBounds,
      waypoint_order = Some [0]\<rparr>"

definition demoDirections :: DirectionsData where
  "demoDirections =
     \<lparr>d_status = ''OK'', d_error_message = None, routes = Some [demoDirectionsRoute]\<rparr>"

definition demoGeocode :: GeocodeData where
  "demoGeocode =
     \<lparr>g_status = ''OK'', g_error_message = None,
      g_results =
        Some [\<lparr>geometry_location = \<lparr>lat = 0, lng = 0\<rparr>, formatted_address = ''1 Main St''\<rparr>]\<rparr>"

definition museum :: Place where
  "museum =
     \<lparr>p_name = ''City Museum'', vicinity = Some ''1 Main St'',
      p_types = Some [''museum'', ''point_of_interest''],
      p_location = \<lparr>lat = 1 / 2, lng = 1 / 2\<rparr>, place_id = Some ''pA'',
      p_rating = Some 4.5, business_status = Some ''OPERATIONAL''\<rparr>"

definition mill :: Place where
  "mill =
     \<lparr>p_name = ''Old Mill'', vicinity = Some ''2 Mill Rd'', p_types = None,
      p_location = \<lparr>lat = 1 / 4, lng = 1 / 2\<rparr>, place_id = Some ''pB'',
      p_rating = Some 3, business_status = Some ''OPERATIONAL''\<rparr>"

definition park :: Place where
  "park =
     \<lparr>p_name = ''River Park'', vicinity = None, p_types = Some [''park''],
      p_location = \<lparr>lat = 1 / 2, lng = 1 / 4\<rparr>, place_id = Some ''pC'',
      p_rating = Some 4.2, business_status = Some ''CLOSED_TEMPORARILY''\<rparr>"

definition harbor :: Place where
  "harbor =
     \<lparr>p_name = ''Harbor Walk'', vicinity = None,
      p_types = Some [''tourist_attraction'', ''point_of_interest''],
      p_location = \<lparr>lat = 3 / 4, lng = 1 / 2\<rparr>, place_id = Some ''pD'',
      p_rating = Some 3.5, business_status = Some ''OPERATIONAL''\<rparr>"

definition demoPlaces :: PlacesData where
  "demoPlaces =
     \<lparr>p_status = ''OK'', p_error_message = None,
      p_results = Some [museum, mill, park, harbor]\<rparr>"

definition demoOutput :: PromptOutput where
  "demoOutput =
     \<lparr>po_suggestedDepartureTime = Some ''2024-08-03T09:45:00Z'',
      po_reasoning = Some ''Leave a little early.''\<rparr>"

definition demoEnv :: env where
  "demoEnv =
     \<lparr>API_KEY = Some ''key'',
      fetchDirections = (\<lambda>w req. Json demoDirections),
      fetchGeocode = (\<lambda>w req. Json demoGeocode),
      fetchPlaces = (\<lambda>w req. Json demoPlaces),
      generateTripPlanPrompt = (\<lambda>w pin. Json (Some demoOutput)),
      decode = (\<lambda>s precision. [(0, 0), (1, 1)]),
      stringifyCoordinate = (\<lambda>c. ''{}''),
      weekdayShort = (\<lambda>d. ''Mon''),
      roundDouble = (\<lambda>x. x),
      sinDouble = sin,
      cosDouble = cos,
      atan2Double = atan2\<rparr>"

definition demoInput :: GenerateTripPlanInput where
  "demoInput =
     \<lparr>originAddress = ''Origin'', destinationAddress = ''Destination'',
      departureTime = ''2024-08-03T10:00:00Z'', waypoints = Some [''pA'']\<rparr>"

definition demoRoute :: Route where
  "demoRoute =
     \<lparr>path = [\<lparr>lat = 0, lng = 0\<rparr>, \<lparr>lat = 1, lng = 1\<rparr>],
      distanceMeters = 2000, durationSeconds = 120,
      bounds = Some demoBounds, waypointsOrder = Some [0]\<rparr>"

definition demoForecast :: WeatherForecast where
  "demoForecast =
     \<lparr>currentTemperatureCelsius = 23,
      currentConditions = ''Partly Cloudy'',
      fiveDayOutlook =
        [\<lparr>date = ''2024-07-29'', temperatureCelsius = 25, conditions = ''Sunny''\<rparr>,
         \<lparr>date = ''2024-07-30'', temperatureCelsius = 27, conditions = ''Sunny''\<rparr>,
         \<lparr>date = ''2024-07-31'', temperatureCelsius = 26, conditions = ''Cloudy''\<rparr>,
         \<lparr>date = ''2024-08-01'', temperatureCelsius = 24, conditions = ''Rainy''\<rparr>,
         \<lparr>date = ''2024-08-02'', temperatureCelsius = 23, conditions = ''Partly Cloudy''\<rparr>]\<rparr>"

text \<open>No credential.\<close>

definition unconfiguredEnv :: env where
  "unconfiguredEnv = demoEnv\<lparr>API_KEY := None\<rparr>"

text \<open>The places endpoint is unreachable.\<close>

definition offlinePlacesEnv :: env where
  "offlinePlacesEnv = demoEnv\<lparr>fetchPlaces := (\<lambda>w req. Threw (JsError ''fetch failed''))\<rparr>"

text \<open>The directions provider answers with an empty stop order.\<close>

definition emptyOrderEnv :: env where
  "emptyOrderEnv =
     demoEnv\<lparr>fetchDirections :=
       (\<lambda>w req. Json (demoDirections\<lparr>routes :=
          Some [demoDirectionsRoute\<lparr>waypoint_order := Some []\<rparr>]\<rparr>))\<rparr>"

text \<open>The directions provider answers with a route that has no bounds.\<close>

definition noBoundsEnv :: env where
  "noBoundsEnv =
     demoEnv\<lparr>fetchDirections :=
       (\<lambda>w req. Json (demoDirections\<lparr>routes :=
          Some [demoDirectionsRoute\<lparr>route_bounds := None\<rparr>]\<rparr>))\<rparr>"

text \<open>The directions provider rejects the request.\<close>

definition invalidRequestEnv :: env where
  "invalidRequestEnv =
     demoEnv\<lparr>fetchDirections :=
       (\<lambda>w req. Json \<lparr>d_status = ''INVALID_REQUEST'', d_error_message = None,
                         routes = None\<rparr>)\<rparr>"

text \<open>The directions endpoint is unreachable.\<close>

definition offlineDirectionsEnv :: env where
  "offlineDirectionsEnv =
     demoEnv\<lparr>fetchDirections := (\<lambda>w req. Threw (JsError ''fetch failed''))\<rparr>"

text \<open>
  A bounding box whose corners are nearly antipodal: latitudes \<open>-0.08\<close> and \<open>0.08\<close>,
  longitudes \<open>-90\<close> and \<open>90\<close>. The latitude is the double nearest to \<open>8/100\<close>.
\<close>

definition LATITUDE_0_08 :: real where
  "LATITUDE_0_08 = 5764607523034235 / 72057594037927936"

definition nearAntipodalBounds :: Bounds where
  "nearAntipodalBounds =
     \<lparr>northeast = \<lparr>lat = LATITUDE_0_08, lng = 90\<rparr>,
      southwest = \<lparr>lat = - LATITUDE_0_08, lng = - 90\<rparr>\<rparr>"

text \<open>
  IEEE 754 binary64 arithmetic on the operands that \<open>nearAntipodalBounds\<close> leads to.
  \<open>ieeeRound\<close> lists the exact results that occur and are no doubles, each with the
  double nearest to it (ties do not occur); the other exact results that occur are
  doubles and stay as they are. \<open>ieeeSin\<close> and \<open>ieeeCos\<close> give, at the three arguments
  that occur, the double nearest to the sine and to the cosine.
\<close>

definition ieeeRound :: "real \<Rightarrow> real" where
  "ieeeRound x =
     (if x = (- (5097525520634492532924351705425 / 20282409603651670423947251286016)) then (- (2263756080649101 / 9007199254740992))
      else if x = (- (754585360216367 / 540431955284459520)) then (- (6439128407179665 / 4611686018427387904))
      else if x = (5097525520634492532924351705425 / 20282409603651670423947251286016) then (2263756080649101 / 9007199254740992)
      else if x = (754585360216367 / 540431955284459520) then (6439128407179665 / 4611686018427387904)
      else if x = (5097525520634492532924351705425 / 10141204801825835211973625643008) then (2263756080649101 / 4503599627370496)
      else if x = (754585360216367 / 270215977642229760) then (6439128407179665 / 2305843009213693952)
      else if x = (39792587355159975 / 70368744177664) then (4974073419394997 / 8796093022208)
      else if x = (4974073419394997 / 1583296743997440) then (884279719003555 / 281474976710656)
      else if x = (2591396731238151695373435182161 / 1329227995784915872903807060280344576) then (4603245307134343 / 2361183241434822606848)
      else if x = (20282370062075572681895628256225 / 20282409603651670423947251286016) then (9007181694753707 / 9007199254740992)
      else if x = (2361183241434822902151 / 2361183241434822606848) then (4503599627370497 / 4503599627370496)
      else x)"

definition ieeeSin :: "real \<Rightarrow> real" where
  "ieeeSin x =
     (if x = (6439128407179665 / 4611686018427387904) then (1609781578736119 / 1152921504606846976)
      else if x = (884279719003555 / 562949953421312) then 1
      else sin x)"

definition ieeeCos :: "real \<Rightarrow> real" where
  "ieeeCos x =
     (if x = (6439128407179665 / 4611686018427387904) \<or> x = (- (6439128407179665 / 4611686018427387904)) then (4503595237371535 / 4503599627370496)
      else cos x)"

definition ieeeEnv :: env where
  "ieeeEnv = demoEnv\<lparr>roundDouble := ieeeRound, sinDouble := ieeeSin, cosDouble := ieeeCos\<rparr>"

text \<open>The reasoning engine answers with an empty suggested time.\<close>

definition emptyTimeEnv :: env where
  "emptyTimeEnv =
     demoEnv\<lparr>generateTripPlanPrompt :=
       (\<lambda>w pin. Json (Some (demoOutput\<lparr>po_suggestedDepartureTime := Some []\<rparr>)))\<rparr>"

subsection \<open>The stop order as the specification words it\<close>

text \<open>A stop order for \<open>numStops\<close> stops is a permutation of the indices \<open>[0, numStops)\<close>.\<close>

definition isStopPermutation :: "nat \<Rightarrow> int list \<Rightarrow> bool" where
  "isStopPermutation numStops order = (mset order = mset (map int [0..<numStops]))"

text \<open>The two attractions that the places of \<open>demoPlaces\<close> yield.\<close>

definition museumAttraction :: Attraction where
  "museumAttraction =
     \<lparr>name = ''City Museum'', description = ''1 Main St'',
      location = \<lparr>lat = 1 / 2, lng = 1 / 2\<rparr>, placeId = Some ''pA'', rating = Some 4.5,
      types = Some [''museum'', ''point_of_interest'']\<rparr>"

definition harborAttraction :: Attraction where
  "harborAttraction =
     \<lparr>name = ''Harbor Walk'', description = ''tourist attraction'',
      location = \<lparr>lat = 3 / 4, lng = 1 / 2\<rparr>, placeId = Some ''pD'', rating = Some 3.5,
      types = Some [''tourist_attraction'', ''point_of_interest'']\<rparr>"

text \<open>What the flow returns for \<open>demoInput\<close> in \<open>demoEnv\<close>.\<close>

definition demoResult :: GenerateTripPlanOutput where
  "demoResult =
     \<lparr>o_originAddress = ''Origin'', o_destinationAddress = ''Destination'',
      suggestedDepartureTime = ''2024-08-03T09:45:00Z'',
      reasoning = ''Leave a little early.'',
      route = demoRoute, weatherForecast = demoForecast,
      nearbyAttractions = [museumAttraction, harborAttraction]\<rparr>"

section \<open>Properties\<close>

subsection \<open>Shared lemmas\<close>

lemma sumLegs_sum_list:
  "sumLegs ls (d, t) =
     (d + (\<Sum>leg\<leftarrow>ls. legValue (distance leg)), t + (\<Sum>leg\<leftarrow>ls. legValue (duration leg)))"
  by (induction ls arbitrary: d t) simp_all

lemma findShortestRoute_InrD:
  assumes "findShortestRoute e origin destination wps w = (Inr rt, w')"
  shows "\<exists>key data. checkApiKey e = Inr key
           \<and> fetchDirections e w (DirectionsRequest origin destination (waypointsQuery wps) key) = Json data
           \<and> directionsBody e wps data = Inr rt
           \<and> w' = w @ [DirectionsRequest origin destination (waypointsQuery wps) key]"
  using assms
  by (auto simp: findShortestRoute_def Let_def split: sum.splits fetched.splits)

lemma directionsBody_InrD:
  assumes "directionsBody e wps data = Inr rt"
  shows "d_status data = ''OK'' \<and>
         (\<exists>r rs. routes data = Some (r # rs) \<and> \<not> missingRequiredFields r
            \<and> distanceMeters rt = fst (sumLegs (the (legs r)) (0, 0))
            \<and> durationSeconds rt = snd (sumLegs (the (legs r)) (0, 0))
            \<and> waypointsOrder rt = waypoint_order r)"
  using assms
  by (auto simp: directionsBody_def Let_def split: if_splits option.splits list.splits prod.splits)

lemma demoEnv_fields:
  "API_KEY demoEnv = Some ''key''"
  "fetchDirections demoEnv w req = Json demoDirections"
  "fetchGeocode demoEnv w req = Json demoGeocode"
  "fetchPlaces demoEnv w req = Json demoPlaces"
  "generateTripPlanPrompt demoEnv w pin = Json (Some demoOutput)"
  "decode demoEnv s precision = [(0, 0), (1, 1)]"
  "weekdayShort demoEnv d = ''Mon''"
  by (simp_all add: demoEnv_def)

lemma demo_checkApiKey: "checkApiKey demoEnv = Inr ''key''"
  by (simp add: checkApiKey_def falsy_str_def demoEnv_fields)

lemma demo_directionsBody: "directionsBody demoEnv wps demoDirections = Inr demoRoute"
  by (simp add: directionsBody_def demoDirections_def demoDirectionsRoute_def demoLegs_def
      missingRequiredFields_def falsy_str_def legValue_def demoEnv_fields demoRoute_def demoBounds_def)

lemma demo_findShortestRoute:
  "findShortestRoute demoEnv origin destination wps w =
     (Inr demoRoute, w @ [DirectionsRequest origin destination (waypointsQuery wps) ''key''])"
  by (simp add: findShortestRoute_def demo_checkApiKey demo_directionsBody demoEnv_fields Let_def)

subsection \<open>Route totals\<close>

text \<open>
  Claim C1. Whenever \<open>findShortestRoute\<close> succeeds, the provider answered with at least one
  route whose \<^verbatim>\<open>legs\<close> array is present, and the returned \<open>distanceMeters\<close> and
  \<open>durationSeconds\<close> are the sums, over all legs of that first route, of the legs'
  \<^verbatim>\<open>distance.value\<close> and \<^verbatim>\<open>duration.value\<close> (a leg without the value counts \<open>0\<close>). No
  top-level total of the response is read.
\<close>

theorem route_totals_are_leg_sums:
  assumes "findShortestRoute e origin destination wps w = (Inr rt, w')"
  shows "\<exists>key data r rs ls.
           fetchDirections e w (DirectionsRequest origin destination (waypointsQuery wps) key) = Json data
           \<and> routes data = Some (r # rs) \<and> legs r = Some ls
           \<and> distanceMeters rt = (\<Sum>leg\<leftarrow>ls. legValue (distance leg))
           \<and> durationSeconds rt = (\<Sum>leg\<leftarrow>ls. legValue (duration leg))"
proof -
  from findShortestRoute_InrD[OF assms] obtain key data where
    f: "fetchDirections e w (DirectionsRequest origin destination (waypointsQuery wps) key) = Json data"
    and b: "directionsBody e wps data = Inr rt" by blast
  from directionsBody_InrD[OF b] obtain r rs where
    r: "routes data = Some (r # rs)" and m: "\<not> missingRequiredFields r"
    and d: "distanceMeters rt = fst (sumLegs (the (legs r)) (0, 0))"
    and t: "durationSeconds rt = snd (sumLegs (the (legs r)) (0, 0))" by blast
  from m obtain ls where ls: "legs r = Some ls"
    by (auto simp: missingRequiredFields_def)
  have "distanceMeters rt = (\<Sum>leg\<leftarrow>ls. legValue (distance leg))"
    and "durationSeconds rt = (\<Sum>leg\<leftarrow>ls. legValue (duration leg))"
    using d t ls by (simp_all add: sumLegs_sum_list)
  with f r ls show ?thesis by blast
qed

theorem route_totals_are_leg_sums_witness:
  "findShortestRoute demoEnv \<lparr>lat = 0, lng = 0\<rparr> \<lparr>lat = 1, lng = 1\<rparr> None [] =
     (Inr demoRoute, [DirectionsRequest \<lparr>lat = 0, lng = 0\<rparr> \<lparr>lat = 1, lng = 1\<rparr> None ''key''])
   \<and> distanceMeters demoRoute = 1200 + 800 \<and> durationSeconds demoRoute = 90 + 30
   \<and> (\<exists>key data r rs ls.
         fetchDirections demoEnv [] (DirectionsRequest \<lparr>lat = 0, lng = 0\<rparr> \<lparr>lat = 1, lng = 1\<rparr> (waypointsQuery None) key) = Json data
         \<and> routes data = Some (r # rs) \<and> legs r = Some ls
         \<and> distanceMeters demoRoute = (\<Sum>leg\<leftarrow>ls. legValue (distance leg))
         \<and> durationSeconds demoRoute = (\<Sum>leg\<leftarrow>ls. legValue (duration leg)))"
proof -
  have h: "findShortestRoute demoEnv \<lparr>lat = 0, lng = 0\<rparr> \<lparr>lat = 1, lng = 1\<rparr> None [] =
     (Inr demoRoute, [DirectionsRequest \<lparr>lat = 0, lng = 0\<rparr> \<lparr>lat = 1, lng = 1\<rparr> None ''key''])"
    by (simp add: demo_findShortestRoute waypointsQuery_def)
  from route_totals_are_leg_sums[OF h] h show ?thesis
    by (simp add: demoRoute_def)
qed

subsection \<open>Required fields of the directions response\<close>

lemma directionsCatch_JsError: "\<exists>m. directionsCatch err = JsError m"
  by (cases err) (simp_all add: directionsCatch_def)

lemma directionsCatch_missing:
  "directionsCatch (JsError ''Directions API response missing required fields.'') =
     JsError ''Failed to fetch directions: Directions API response missing required fields.''"
  by (simp add: directionsCatch_def SERVER_CONFIG_ERROR_MSG_def)

text \<open>
  When the directions provider answers and the first route of the answer lacks
  \<^verbatim>\<open>legs\<close>, the overview polyline's \<^verbatim>\<open>points\<close> (absent or empty) or \<^verbatim>\<open>bounds\<close>,
  \<open>findShortestRoute\<close> throws an \<^verbatim>\<open>Error\<close> and returns no \<open>Route\<close>. With status \<^verbatim>\<open>OK\<close>
  the message is that of source line 191 behind the prefix that the \<^verbatim>\<open>catch\<close> block
  puts before the message of a failed fetch.
\<close>

lemma missing_fields_error:
  assumes "checkApiKey e = Inr key"
    and "fetchDirections e w (DirectionsRequest origin destination (waypointsQuery wps) key) = Json data"
    and "routes data = Some (r # rs)"
    and "missingRequiredFields r"
  shows "\<exists>m. findShortestRoute e origin destination wps w =
               (Inl (JsError m), w @ [DirectionsRequest origin destination (waypointsQuery wps) key])
             \<and> (d_status data = ''OK'' \<longrightarrow>
                  m = ''Failed to fetch directions: Directions API response missing required fields.'')"
proof (cases "d_status data = ''OK''")
  case True
  then have "directionsBody e wps data =
      Inl (JsError ''Directions API response missing required fields.'')"
    using assms(3,4) by (simp add: directionsBody_def)
  then show ?thesis
    using assms(1,2) True
    by (simp add: findShortestRoute_def Let_def directionsCatch_missing)
next
  case False
  then have b: "directionsBody e wps data = Inl (JsError (directionsStatusError data wps))"
    by (simp add: directionsBody_def)
  obtain m where "directionsCatch (JsError (directionsStatusError data wps)) = JsError m"
    using directionsCatch_JsError by blast
  then show ?thesis
    using assms(1,2) False b by (simp add: findShortestRoute_def Let_def)
qed

lemma noBoundsEnv_fields:
  "checkApiKey noBoundsEnv = Inr ''key''"
  "fetchDirections noBoundsEnv w req =
     Json (demoDirections\<lparr>routes := Some [demoDirectionsRoute\<lparr>route_bounds := None\<rparr>]\<rparr>)"
  by (simp_all add: noBoundsEnv_def checkApiKey_def falsy_str_def demoEnv_def)

lemma offlineDirectionsEnv_route:
  "findShortestRoute offlineDirectionsEnv origin destination wps w =
     (Inl (JsError ''Failed to fetch directions: fetch failed''),
      w @ [DirectionsRequest origin destination (waypointsQuery wps) ''key''])"
  by (simp add: findShortestRoute_def Let_def offlineDirectionsEnv_def checkApiKey_def
      falsy_str_def demoEnv_def directionsCatch_def SERVER_CONFIG_ERROR_MSG_def)

lemma invalidRequestEnv_route:
  "findShortestRoute invalidRequestEnv origin destination wps w =
     (Inl (JsError ''Directions API Error: Invalid Request. Check origin, destination, and waypoint format.''),
      w @ [DirectionsRequest origin destination (waypointsQuery wps) ''key''])"
  by (simp add: findShortestRoute_def Let_def invalidRequestEnv_def checkApiKey_def
      falsy_str_def demoEnv_def directionsBody_def directionsStatusError_def str_or_def
      directionsCatch_def SERVER_CONFIG_ERROR_MSG_def)

text \<open>
  Claim C7. A response with status \<^verbatim>\<open>OK\<close> whose first route has no \<^verbatim>\<open>bounds\<close> yields no
  \<open>Route\<close>, but the error is not reported as an invalid response. The message thrown at
  source line 191 does not begin with \<^verbatim>\<open>Directions API Error:\<close>, the prefix that the
  \<^verbatim>\<open>catch\<close> block lets through and that the log line before it uses, so the \<^verbatim>\<open>catch\<close>
  block wraps it as it wraps the error of an unreachable endpoint. A request that the
  provider rejects as invalid keeps its own message.
\<close>

theorem missing_bounds_reported_as_fetch_failure:
  "findShortestRoute noBoundsEnv \<lparr>lat = 0, lng = 0\<rparr> \<lparr>lat = 1, lng = 1\<rparr> None [] =
     (Inl (JsError ''Failed to fetch directions: Directions API response missing required fields.''),
      [DirectionsRequest \<lparr>lat = 0, lng = 0\<rparr> \<lparr>lat = 1, lng = 1\<rparr> None ''key''])
   \<and> \<not> prefix ''Directions API Error:'' ''Directions API response missing required fields.''
   \<and> findShortestRoute offlineDirectionsEnv \<lparr>lat = 0, lng = 0\<rparr> \<lparr>lat = 1, lng = 1\<rparr> None [] =
     (Inl (JsError ''Failed to fetch directions: fetch failed''),
      [DirectionsRequest \<lparr>lat = 0, lng = 0\<rparr> \<lparr>lat = 1, lng = 1\<rparr> None ''key''])
   \<and> findShortestRoute invalidRequestEnv \<lparr>lat = 0, lng = 0\<rparr> \<lparr>lat = 1, lng = 1\<rparr> None [] =
     (Inl (JsError ''Directions API Error: Invalid Request. Check origin, destination, and waypoint format.''),
      [DirectionsRequest \<lparr>lat = 0, lng = 0\<rparr> \<lparr>lat = 1, lng = 1\<rparr> None ''key''])"
proof -
  let ?data = "demoDirections\<lparr>routes := Some [demoDirectionsRoute\<lparr>route_bounds := None\<rparr>]\<rparr>"
  have q: "waypointsQuery None = None" by (simp add: waypointsQuery_def)
  have 1: "checkApiKey noBoundsEnv = Inr ''key''" by (rule noBoundsEnv_fields)
  have 2: "fetchDirections noBoundsEnv []
             (DirectionsRequest \<lparr>lat = 0, lng = 0\<rparr> \<lparr>lat = 1, lng = 1\<rparr> (waypointsQuery None) ''key'') = Json ?data"
    by (rule noBoundsEnv_fields)
  have 3: "routes ?data = Some (demoDirectionsRoute\<lparr>route_bounds := None\<rparr> # [])" by simp
  have 4: "missingRequiredFields (demoDirectionsRoute\<lparr>route_bounds := None\<rparr>)"
    by (simp add: missingRequiredFields_def)
  have 5: "d_status ?data = ''OK''" by (simp add: demoDirections_def)
  from missing_fields_error[OF 1 2 3 4] 5
  have a: "findShortestRoute noBoundsEnv \<lparr>lat = 0, lng = 0\<rparr> \<lparr>lat = 1, lng = 1\<rparr> None [] =
     (Inl (JsError ''Failed to fetch directions: Directions API response missing required fields.''),
      [DirectionsRequest \<lparr>lat = 0, lng = 0\<rparr> \<lparr>lat = 1, lng = 1\<rparr> None ''key''])"
    by (auto simp: q)
  have b: "\<not> prefix ''Directions API Error:'' ''Directions API response missing required fields.''"
    by simp
  from a b show ?thesis
    by (simp add: offlineDirectionsEnv_route invalidRequestEnv_route q)
qed

subsection \<open>Stop order\<close>

lemma emptyOrderEnv_route:
  "findShortestRoute emptyOrderEnv origin destination wps w =
     (Inr (demoRoute\<lparr>waypointsOrder := Some []\<rparr>),
      w @ [DirectionsRequest origin destination (waypointsQuery wps) ''key''])"
  by (simp add: findShortestRoute_def Let_def emptyOrderEnv_def checkApiKey_def falsy_str_def
      demoEnv_def directionsBody_def demoDirections_def demoDirectionsRoute_def demoLegs_def
      missingRequiredFields_def legValue_def demoRoute_def demoBounds_def)

lemma isStopPermutation_length:
  assumes "isStopPermutation numStops order"
  shows "length order = numStops"
proof -
  from assms have "size (mset order) = size (mset (map int [0..<numStops]))"
    by (simp only: isStopPermutation_def)
  then show ?thesis by simp
qed

lemma one_index_for_two_stops: "\<not> isStopPermutation 2 [0]"
  using isStopPermutation_length[of 2 "[0]"] by auto

text \<open>
  Claim C6. The code returns the provider's \<^verbatim>\<open>waypoint_order\<close> as it came, and so breaks
  what its own description of \<^verbatim>\<open>waypointsOrder\<close> promises. With two stops of which the
  first lacks the \<^verbatim>\<open>place_id:\<close> prefix, only the second is sent; the order \<open>[0]\<close> that comes
  back for it is returned, which is no permutation of the two input indices and names
  the stop that was dropped. With no stops, absent or empty, a provider that sends an
  empty order has it returned: present, not absent.
\<close>

theorem stop_order_breaks_its_description:
  "waypointsQuery (Some [''pB'', ''place_id:pA'']) = Some ''optimize:true|place_id:pA''
   \<and> fst (findShortestRoute demoEnv \<lparr>lat = 0, lng = 0\<rparr> \<lparr>lat = 1, lng = 1\<rparr>
            (Some [''pB'', ''place_id:pA'']) [])
     = Inr (demoRoute\<lparr>waypointsOrder := Some [0]\<rparr>)
   \<and> \<not> isStopPermutation 2 [0]
   \<and> fst (findShortestRoute emptyOrderEnv \<lparr>lat = 0, lng = 0\<rparr> \<lparr>lat = 1, lng = 1\<rparr> None [])
     = Inr (demoRoute\<lparr>waypointsOrder := Some []\<rparr>)
   \<and> fst (findShortestRoute emptyOrderEnv \<lparr>lat = 0, lng = 0\<rparr> \<lparr>lat = 1, lng = 1\<rparr> (Some []) [])
     = Inr (demoRoute\<lparr>waypointsOrder := Some []\<rparr>)
   \<and> waypointsOrder (demoRoute\<lparr>waypointsOrder := Some []\<rparr>) \<noteq> None"
  by (simp add: emptyOrderEnv_route demo_findShortestRoute one_index_for_two_stops
      waypointsQuery_def demoRoute_def)

subsection \<open>The weather stub\<close>

text \<open>
  Claim C10. \<open>getWeatherForecast\<close> returns, for every location, the same successful result:
  23 degrees, \<^verbatim>\<open>Partly Cloudy\<close>, and the five literal outlook entries for 2024-07-29 to
  2024-08-02. It has no failing branch and reads nothing but its (unused) argument.
\<close>

theorem weather_is_fixed:
  "getWeatherForecast loc = getWeatherForecast loc'
   \<and> getWeatherForecast loc =
       Inr \<lparr>currentTemperatureCelsius = 23,
            currentConditions = ''Partly Cloudy'',
            fiveDayOutlook =
              [\<lparr>date = ''2024-07-29'', temperatureCelsius = 25, conditions = ''Sunny''\<rparr>,
               \<lparr>date = ''2024-07-30'', temperatureCelsius = 27, conditions = ''Sunny''\<rparr>,
               \<lparr>date = ''2024-07-31'', temperatureCelsius = 26, conditions = ''Cloudy''\<rparr>,
               \<lparr>date = ''2024-08-01'', temperatureCelsius = 24, conditions = ''Rainy''\<rparr>,
               \<lparr>date = ''2024-08-02'', temperatureCelsius = 23, conditions = ''Partly Cloudy''\<rparr>]\<rparr>"
  by (simp add: getWeatherForecast_def)

subsection \<open>The attraction filter\<close>

lemma findAttractionsNearCoordinate_InrD:
  assumes "findAttractionsNearCoordinate e center radius w = (Inr as, w')"
  shows "\<exists>key data. checkApiKey e = Inr key
           \<and> fetchPlaces e w (PlacesRequest center radius PLACES_KEYWORD key) = Json data
           \<and> placesBody data = Inr as
           \<and> w' = w @ [PlacesRequest center radius PLACES_KEYWORD key]"
  using assms
  by (auto simp: findAttractionsNearCoordinate_def Let_def split: sum.splits fetched.splits)

lemma take_filter_subseq: "subseq (take n (filter P xs)) xs"
proof -
  have "prefix (take n (filter P xs)) (filter P xs)" by (rule take_is_prefix)
  then have "subseq (take n (filter P xs)) (filter P xs)" by (rule prefix_imp_subseq)
  from subseq_order.trans[OF this subseq_filter_left] show ?thesis .
qed

lemma placesBody_InrD:
  assumes "placesBody data = Inr as"
  shows "\<exists>kept. subseq kept (case p_results data of None \<Rightarrow> [] | Some results \<Rightarrow> results)
           \<and> (\<forall>place\<in>set kept. keepPlace place)
           \<and> length kept \<le> 15
           \<and> as = map toAttraction kept"
proof (cases "p_status data = ''OK''")
  case True
  show ?thesis
  proof (cases "p_results data")
    case None
    with True assms have "as = []" by (simp add: placesBody_def)
    then show ?thesis by (intro exI[of _ "[]"]) simp
  next
    case (Some results)
    let ?kept = "take 15 (filter keepPlace results)"
    have a: "as = map toAttraction ?kept" using assms True Some by (simp add: placesBody_def)
    have s: "subseq ?kept results" by (rule take_filter_subseq)
    have k: "\<forall>place\<in>set ?kept. keepPlace place"
    proof
      fix place assume "place \<in> set ?kept"
      then have "place \<in> set (filter keepPlace results)" by (rule in_set_takeD)
      then show "keepPlace place" by simp
    qed
    have l: "length ?kept \<le> 15" by simp
    have s': "subseq ?kept (case p_results data of None \<Rightarrow> [] | Some results \<Rightarrow> results)"
      using s by (simp only: Some option.case)
    from s' k l a show ?thesis by blast
  qed
next
  case False
  with assms have "as = []" by (simp add: placesBody_def split: if_splits)
  then show ?thesis by (intro exI[of _ "[]"]) simp
qed

lemma keepPlace_D:
  "keepPlace place \<Longrightarrow>
     (\<exists>r. p_rating place = Some r \<and> r \<ge> 3.5) \<and> business_status place = Some ''OPERATIONAL''"
  by (auto simp: keepPlace_def split: option.splits)

text \<open>
  Claim C3. Whenever \<open>findAttractionsNearCoordinate\<close> succeeds, the returned list is the
  image, in order, of a subsequence of the provider's results (so provider order is
  kept); every place of that subsequence has a rating of at least 3.5 and the business
  status \<^verbatim>\<open>OPERATIONAL\<close>; every returned attraction carries a rating of at least 3.5;
  and there are at most 15 of them.
\<close>

theorem near_coordinate_filter:
  assumes "findAttractionsNearCoordinate e center radius w = (Inr as, w')"
  shows "\<exists>key data kept.
           fetchPlaces e w (PlacesRequest center radius PLACES_KEYWORD key) = Json data
           \<and> subseq kept (case p_results data of None \<Rightarrow> [] | Some results \<Rightarrow> results)
           \<and> as = map toAttraction kept
           \<and> (\<forall>place\<in>set kept.
                 (\<exists>r. p_rating place = Some r \<and> r \<ge> 3.5)
                 \<and> business_status place = Some ''OPERATIONAL'')
           \<and> (\<forall>a\<in>set as. \<exists>r. rating a = Some r \<and> r \<ge> 3.5)
           \<and> length as \<le> 15"
proof -
  from findAttractionsNearCoordinate_InrD[OF assms] obtain key data where
    f: "fetchPlaces e w (PlacesRequest center radius PLACES_KEYWORD key) = Json data"
    and b: "placesBody data = Inr as" by blast
  from placesBody_InrD[OF b] obtain kept where
    s: "subseq kept (case p_results data of None \<Rightarrow> [] | Some results \<Rightarrow> results)"
    and k: "\<forall>place\<in>set kept. keepPlace place"
    and l: "length kept \<le> 15" and a: "as = map toAttraction kept" by blast
  have k': "\<forall>place\<in>set kept.
                 (\<exists>r. p_rating place = Some r \<and> r \<ge> 3.5)
                 \<and> business_status place = Some ''OPERATIONAL''"
    using k keepPlace_D by blast
  have "\<forall>a\<in>set as. \<exists>r. rating a = Some r \<and> r \<ge> 3.5"
    using k' a by (auto simp: toAttraction_def)
  with f s a k' l show ?thesis by (intro exI[of _ key] exI[of _ data] exI[of _ kept]) simp
qed

lemma demo_placesBody: "placesBody demoPlaces = Inr [museumAttraction, harborAttraction]"
  by (simp add: placesBody_def demoPlaces_def keepPlace_def museum_def mill_def park_def
      harbor_def toAttraction_def placeDescription_def falsy_str_def
      underscores_to_spaces_def museumAttraction_def harborAttraction_def)

lemma demo_findAttractionsNearCoordinate:
  "findAttractionsNearCoordinate demoEnv center radius w =
     (Inr [museumAttraction, harborAttraction],
      w @ [PlacesRequest center radius PLACES_KEYWORD ''key''])"
  by (simp add: findAttractionsNearCoordinate_def demo_checkApiKey demoEnv_fields
      demo_placesBody Let_def)

theorem near_coordinate_filter_witness:
  "findAttractionsNearCoordinate demoEnv \<lparr>lat = 0, lng = 0\<rparr> (Num 15000) [] =
     (Inr [museumAttraction, harborAttraction],
      [PlacesRequest \<lparr>lat = 0, lng = 0\<rparr> (Num 15000) PLACES_KEYWORD ''key''])
   \<and> (\<exists>key data kept.
         fetchPlaces demoEnv [] (PlacesRequest \<lparr>lat = 0, lng = 0\<rparr> (Num 15000) PLACES_KEYWORD key) = Json data
         \<and> subseq kept (case p_results data of None \<Rightarrow> [] | Some results \<Rightarrow> results)
         \<and> [museumAttraction, harborAttraction] = map toAttraction kept
         \<and> (\<forall>place\<in>set kept.
               (\<exists>r. p_rating place = Some r \<and> r \<ge> 3.5)
               \<and> business_status place = Some ''OPERATIONAL'')
         \<and> (\<forall>a\<in>set [museumAttraction, harborAttraction]. \<exists>r. rating a = Some r \<and> r \<ge> 3.5)
         \<and> length [museumAttraction, harborAttraction] \<le> 15)"
proof -
  have h: "findAttractionsNearCoordinate demoEnv \<lparr>lat = 0, lng = 0\<rparr> (Num 15000) [] =
     (Inr [museumAttraction, harborAttraction],
      [PlacesRequest \<lparr>lat = 0, lng = 0\<rparr> (Num 15000) PLACES_KEYWORD ''key''])"
    by (simp add: demo_findAttractionsNearCoordinate)
  from near_coordinate_filter[OF h] h show ?thesis by blast
qed

subsection \<open>Failure policy of the route-level attraction search\<close>

lemma nearRouteCatch_eq:
  "nearRouteCatch err = (if err = JsError SERVER_CONFIG_ERROR_MSG then Inl err else Inr [])"
  by (cases err) (simp_all add: nearRouteCatch_def)

lemma nearRoute_bounds:
  assumes "bounds rt = Some b"
  shows "findAttractionsNearRoute e rt w =
     (case findAttractionsNearCoordinate e (centerCoord b) (Math_round (searchRadius e b)) w of
        (Inl err, w') \<Rightarrow> (nearRouteCatch err, w')
      | (Inr as, w') \<Rightarrow> (Inr as, w'))"
  using assms by (simp add: findAttractionsNearRoute_def)

lemma nearRoute_midpoint:
  assumes "bounds rt = None" "path rt \<noteq> []"
  shows "findAttractionsNearRoute e rt w =
     (case findAttractionsNearCoordinate e (path rt ! (length (path rt) div 2)) (Num 20000) w of
        (Inl err, w') \<Rightarrow> (nearRouteCatch err, w')
      | (Inr as, w') \<Rightarrow> (Inr as, w'))"
  using assms by (simp add: findAttractionsNearRoute_def Let_def)

lemma nearRoute_nothing:
  assumes "bounds rt = None" "path rt = []"
  shows "findAttractionsNearRoute e rt w = (Inr [], w)"
  using assms by (simp add: findAttractionsNearRoute_def)

lemma nearRoute_only_config_escapes:
  assumes "findAttractionsNearRoute e rt w = (Inl err, w')"
  shows "err = JsError SERVER_CONFIG_ERROR_MSG"
proof (cases "bounds rt")
  case (Some b)
  obtain res w1 where c: "findAttractionsNearCoordinate e (centerCoord b)
      (Math_round (searchRadius e b)) w = (res, w1)" by (cases "findAttractionsNearCoordinate e (centerCoord b)
      (Math_round (searchRadius e b)) w")
  show ?thesis using assms unfolding nearRoute_bounds[OF Some] c
    by (cases res) (auto simp: nearRouteCatch_eq split: if_splits)
next
  case None
  show ?thesis
  proof (cases "path rt = []")
    case True
    with None assms show ?thesis by (simp add: nearRoute_nothing)
  next
    case False
    obtain res w1 where c: "findAttractionsNearCoordinate e (path rt ! (length (path rt) div 2)) (Num 20000) w = (res, w1)"
      by (cases "findAttractionsNearCoordinate e (path rt ! (length (path rt) div 2)) (Num 20000) w")
    show ?thesis using assms unfolding nearRoute_midpoint[OF None False] c
      by (cases res) (auto simp: nearRouteCatch_eq split: if_splits)
  qed
qed

text \<open>
  Claim C4. The only error that leaves \<open>findAttractionsNearRoute\<close> is the configuration
  error (the \<^verbatim>\<open>Error\<close> whose message is \<open>SERVER_CONFIG_ERROR_MSG\<close>). When the nearby
  search it delegates to fails, around the centre of the bounds or around the midpoint
  of the path, the configuration error is thrown on unchanged and every other failure
  becomes the empty list.
\<close>

theorem near_route_failure_policy:
  "(findAttractionsNearRoute e rt w = (Inl err, w') \<longrightarrow> err = JsError SERVER_CONFIG_ERROR_MSG)
   \<and> (bounds rt = Some b
        \<and> findAttractionsNearCoordinate e (centerCoord b) (Math_round (searchRadius e b)) w
            = (Inl err, w')
      \<longrightarrow> findAttractionsNearRoute e rt w =
            (if err = JsError SERVER_CONFIG_ERROR_MSG then Inl err else Inr [], w'))
   \<and> (bounds rt = None \<and> path rt \<noteq> []
        \<and> findAttractionsNearCoordinate e (path rt ! (length (path rt) div 2)) (Num 20000) w
            = (Inl err, w')
      \<longrightarrow> findAttractionsNearRoute e rt w =
            (if err = JsError SERVER_CONFIG_ERROR_MSG then Inl err else Inr [], w'))"
proof (intro conjI impI)
  assume "findAttractionsNearRoute e rt w = (Inl err, w')"
  then show "err = JsError SERVER_CONFIG_ERROR_MSG" by (rule nearRoute_only_config_escapes)
next
  assume a: "bounds rt = Some b
        \<and> findAttractionsNearCoordinate e (centerCoord b) (Math_round (searchRadius e b)) w
            = (Inl err, w')"
  then have "bounds rt = Some b" by simp
  from nearRoute_bounds[OF this] a
  show "findAttractionsNearRoute e rt w =
            (if err = JsError SERVER_CONFIG_ERROR_MSG then Inl err else Inr [], w')"
    by (simp add: nearRouteCatch_eq)
next
  assume a: "bounds rt = None \<and> path rt \<noteq> []
        \<and> findAttractionsNearCoordinate e (path rt ! (length (path rt) div 2)) (Num 20000) w
            = (Inl err, w')"
  then have "bounds rt = None" "path rt \<noteq> []" by simp_all
  from nearRoute_midpoint[OF this] a
  show "findAttractionsNearRoute e rt w =
            (if err = JsError SERVER_CONFIG_ERROR_MSG then Inl err else Inr [], w')"
    by (simp add: nearRouteCatch_eq)
qed

lemma missing_key_checkApiKey:
  "falsy_str (API_KEY e) \<Longrightarrow> checkApiKey e = Inl (JsError SERVER_CONFIG_ERROR_MSG)"
  by (simp add: checkApiKey_def)

lemma unconfigured_falsy: "falsy_str (API_KEY unconfiguredEnv)"
  by (simp add: unconfiguredEnv_def falsy_str_def)

lemma unconfigured_nearCoordinate:
  "findAttractionsNearCoordinate unconfiguredEnv center radius w =
     (Inl (JsError SERVER_CONFIG_ERROR_MSG), w)"
  by (simp add: findAttractionsNearCoordinate_def missing_key_checkApiKey[OF unconfigured_falsy])

lemma offline_nearCoordinate:
  "findAttractionsNearCoordinate offlinePlacesEnv center radius w =
     (Inl (JsError ''Failed to find attractions: fetch failed''),
      w @ [PlacesRequest center radius PLACES_KEYWORD ''key''])"
  by (simp add: findAttractionsNearCoordinate_def checkApiKey_def falsy_str_def
      offlinePlacesEnv_def demoEnv_def placesCatch_def SERVER_CONFIG_ERROR_MSG_def Let_def)

lemma demoRoute_bounds: "bounds demoRoute = Some demoBounds"
  by (simp add: demoRoute_def)

lemma offline_nearCoordinate_bounds:
  "bounds demoRoute = Some demoBounds
   \<and> findAttractionsNearCoordinate offlinePlacesEnv (centerCoord demoBounds)
         (Math_round (searchRadius offlinePlacesEnv demoBounds)) []
       = (Inl (JsError ''Failed to find attractions: fetch failed''),
          [PlacesRequest (centerCoord demoBounds)
             (Math_round (searchRadius offlinePlacesEnv demoBounds)) PLACES_KEYWORD ''key''])"
  using offline_nearCoordinate[of "centerCoord demoBounds"
          "Math_round (searchRadius offlinePlacesEnv demoBounds)" "[]"]
  by (simp only: demoRoute_bounds append_Nil simp_thms)

lemma fetch_failed_not_config:
  "JsError ''Failed to find attractions: fetch failed'' \<noteq> JsError SERVER_CONFIG_ERROR_MSG"
  by (simp add: SERVER_CONFIG_ERROR_MSG_def)

theorem near_route_failure_policy_witness:
  "findAttractionsNearRoute unconfiguredEnv demoRoute [] = (Inl (JsError SERVER_CONFIG_ERROR_MSG), [])
   \<and> findAttractionsNearRoute offlinePlacesEnv demoRoute [] =
       (Inr [], [PlacesRequest (centerCoord demoBounds)
                   (Math_round (searchRadius offlinePlacesEnv demoBounds)) PLACES_KEYWORD ''key''])
   \<and> findAttractionsNearRoute offlinePlacesEnv (demoRoute\<lparr>bounds := None\<rparr>) [] =
       (Inr [], [PlacesRequest \<lparr>lat = 1, lng = 1\<rparr> (Num 20000) PLACES_KEYWORD ''key''])"
proof -
  have p: "bounds (demoRoute\<lparr>bounds := None\<rparr>) = None \<and> path (demoRoute\<lparr>bounds := None\<rparr>) \<noteq> []
           \<and> path (demoRoute\<lparr>bounds := None\<rparr>) ! (length (path (demoRoute\<lparr>bounds := None\<rparr>)) div 2)
               = \<lparr>lat = 1, lng = 1\<rparr>"
    by (simp add: demoRoute_def)
  from near_route_failure_policy[of unconfiguredEnv demoRoute "[]" "JsError SERVER_CONFIG_ERROR_MSG" "[]" demoBounds]
  have 1: "findAttractionsNearRoute unconfiguredEnv demoRoute [] = (Inl (JsError SERVER_CONFIG_ERROR_MSG), [])"
    by (simp add: demoRoute_bounds unconfigured_nearCoordinate)
  have "bounds demoRoute = Some demoBounds
        \<and> findAttractionsNearCoordinate offlinePlacesEnv (centerCoord demoBounds)
              (Math_round (searchRadius offlinePlacesEnv demoBounds)) []
            = (Inl (JsError ''Failed to find attractions: fetch failed''),
               [PlacesRequest (centerCoord demoBounds)
                  (Math_round (searchRadius offlinePlacesEnv demoBounds)) PLACES_KEYWORD ''key''])
      \<longrightarrow> findAttractionsNearRoute offlinePlacesEnv demoRoute [] =
            (if JsError ''Failed to find attractions: fetch failed'' = JsError SERVER_CONFIG_ERROR_MSG
             then Inl (JsError ''Failed to find attractions: fetch failed'') else Inr [],
             [PlacesRequest (centerCoord demoBounds)
                (Math_round (searchRadius offlinePlacesEnv demoBounds)) PLACES_KEYWORD ''key''])"
    using near_route_failure_policy[of offlinePlacesEnv demoRoute "[]"
      "JsError ''Failed to find attractions: fetch failed''"
      "[PlacesRequest (centerCoord demoBounds) (Math_round (searchRadius offlinePlacesEnv demoBounds)) PLACES_KEYWORD ''key'']"
      demoBounds]
    by (rule conjunct1[OF conjunct2])
  from mp[OF this offline_nearCoordinate_bounds]
  have 2: "findAttractionsNearRoute offlinePlacesEnv demoRoute [] =
       (Inr [], [PlacesRequest (centerCoord demoBounds)
                   (Math_round (searchRadius offlinePlacesEnv demoBounds)) PLACES_KEYWORD ''key''])"
    by (simp only: fetch_failed_not_config if_False)
  from near_route_failure_policy[of offlinePlacesEnv "demoRoute\<lparr>bounds := None\<rparr>" "[]"
      "JsError ''Failed to find attractions: fetch failed''"
      "[PlacesRequest \<lparr>lat = 1, lng = 1\<rparr> (Num 20000) PLACES_KEYWORD ''key'']" demoBounds]
  have 3: "findAttractionsNearRoute offlinePlacesEnv (demoRoute\<lparr>bounds := None\<rparr>) [] =
       (Inr [], [PlacesRequest \<lparr>lat = 1, lng = 1\<rparr> (Num 20000) PLACES_KEYWORD ''key''])"
    using fetch_failed_not_config p by (simp add: offline_nearCoordinate)
  from 1 2 3 show ?thesis by (intro conjI)
qed

subsection \<open>Missing credential\<close>

lemma config_not_network_failure: "\<not> prefix ''Failed to'' SERVER_CONFIG_ERROR_MSG"
  by (simp add: SERVER_CONFIG_ERROR_MSG_def)

text \<open>
  Claim C5, as amended. With \<^verbatim>\<open>GOOGLE_MAPS_API_KEY\<close> absent or empty, every call of the
  routing, geocoding, reverse-geocoding and places functions throws the configuration
  error and leaves the world as it was: no request is issued. The route-level search
  does the same whenever it has bounds or a path to search around, and the flow fails
  with the same message behind its own prefix. The message is not that of a network
  failure. The weather function reads no credential and succeeds.
\<close>

theorem missing_key_fails_before_fetch:
  assumes "falsy_str (API_KEY e)"
  shows "findShortestRoute e origin destination wps w = (Inl (JsError SERVER_CONFIG_ERROR_MSG), w)
   \<and> getCoordinatesFromAddress e address w = (Inl (JsError SERVER_CONFIG_ERROR_MSG), w)
   \<and> getAddressFromCoordinates e coordinate w = (Inl (JsError SERVER_CONFIG_ERROR_MSG), w)
   \<and> findAttractionsNearCoordinate e center radius w = (Inl (JsError SERVER_CONFIG_ERROR_MSG), w)
   \<and> (bounds rt \<noteq> None \<or> path rt \<noteq> [] \<longrightarrow>
        findAttractionsNearRoute e rt w = (Inl (JsError SERVER_CONFIG_ERROR_MSG), w))
   \<and> generateTripPlanFlow e input w =
        (Inl (JsError (''Trip plan generation failed: '' @ SERVER_CONFIG_ERROR_MSG)), w)
   \<and> \<not> prefix ''Failed to'' SERVER_CONFIG_ERROR_MSG
   \<and> (\<exists>forecast. getWeatherForecast loc = Inr forecast)"
proof -
  note k = missing_key_checkApiKey[OF assms]
  have r: "findShortestRoute e origin destination wps w = (Inl (JsError SERVER_CONFIG_ERROR_MSG), w)"
    by (simp add: findShortestRoute_def k)
  have g: "\<And>a. getCoordinatesFromAddress e a w = (Inl (JsError SERVER_CONFIG_ERROR_MSG), w)"
    by (simp add: getCoordinatesFromAddress_def k)
  have v: "getAddressFromCoordinates e coordinate w = (Inl (JsError SERVER_CONFIG_ERROR_MSG), w)"
    by (simp add: getAddressFromCoordinates_def k)
  have c: "\<And>c r. findAttractionsNearCoordinate e c r w = (Inl (JsError SERVER_CONFIG_ERROR_MSG), w)"
    by (simp add: findAttractionsNearCoordinate_def k)
  have n: "bounds rt \<noteq> None \<or> path rt \<noteq> [] \<longrightarrow>
        findAttractionsNearRoute e rt w = (Inl (JsError SERVER_CONFIG_ERROR_MSG), w)"
  proof (cases "bounds rt")
    case (Some b)
    show ?thesis unfolding nearRoute_bounds[OF Some] c by (simp add: nearRouteCatch_eq)
  next
    case None
    show ?thesis
    proof (cases "path rt = []")
      case True
      with None show ?thesis by simp
    next
      case False
      show ?thesis unfolding nearRoute_midpoint[OF None False] c by (simp add: nearRouteCatch_eq)
    qed
  qed
  have f: "generateTripPlanFlow e input w =
        (Inl (JsError (''Trip plan generation failed: '' @ SERVER_CONFIG_ERROR_MSG)), w)"
    by (simp add: generateTripPlanFlow_def flowBody_def g flowCatch_def)
  have "\<exists>forecast. getWeatherForecast loc = Inr forecast"
    by (simp add: getWeatherForecast_def)
  with r g v c n f config_not_network_failure show ?thesis by blast
qed

theorem missing_key_fails_before_fetch_witness:
  "findShortestRoute unconfiguredEnv \<lparr>lat = 0, lng = 0\<rparr> \<lparr>lat = 1, lng = 1\<rparr> None []
     = (Inl (JsError SERVER_CONFIG_ERROR_MSG), [])
   \<and> getCoordinatesFromAddress unconfiguredEnv ''Origin'' [] = (Inl (JsError SERVER_CONFIG_ERROR_MSG), [])
   \<and> getAddressFromCoordinates unconfiguredEnv \<lparr>lat = 0, lng = 0\<rparr> []
     = (Inl (JsError SERVER_CONFIG_ERROR_MSG), [])
   \<and> findAttractionsNearCoordinate unconfiguredEnv \<lparr>lat = 0, lng = 0\<rparr> (Num 15000) []
     = (Inl (JsError SERVER_CONFIG_ERROR_MSG), [])
   \<and> findAttractionsNearRoute unconfiguredEnv demoRoute [] = (Inl (JsError SERVER_CONFIG_ERROR_MSG), [])
   \<and> generateTripPlanFlow unconfiguredEnv demoInput [] =
        (Inl (JsError (''Trip plan generation failed: '' @ SERVER_CONFIG_ERROR_MSG)), [])"
  using missing_key_fails_before_fetch[OF unconfigured_falsy,
      of "\<lparr>lat = 0, lng = 0\<rparr>" "\<lparr>lat = 1, lng = 1\<rparr>" None "[]" "''Origin''" "\<lparr>lat = 0, lng = 0\<rparr>"
         "\<lparr>lat = 0, lng = 0\<rparr>" "Num 15000" demoRoute demoInput]
  by (simp add: demoRoute_bounds)

text \<open>
  Claim C5 as stated fails for the weather provider: with no credential configured at
  all, \<open>getWeatherForecast\<close> returns a forecast instead of the configuration error.
\<close>

theorem weather_needs_no_credential_counterexample:
  "falsy_str (API_KEY unconfiguredEnv)
   \<and> getWeatherForecast \<lparr>lat = 0, lng = 0\<rparr> = Inr demoForecast"
  by (simp add: unconfigured_falsy getWeatherForecast_def demoForecast_def)

subsection \<open>The search radius\<close>

lemma Math_min_max_range:
  "Math_min (Math_max x (Num 10000)) (Num 50000) = NaN
   \<or> (\<exists>r. Math_min (Math_max x (Num 10000)) (Num 50000) = Num r \<and> 10000 \<le> r \<and> r \<le> 50000)"
  by (cases x) (simp_all add: Math_min_def Math_max_def)

lemma searchRadius_nan_or_clamped:
  "searchRadius e b = NaN \<or> (\<exists>r. searchRadius e b = Num r \<and> 10000 \<le> r \<and> r \<le> 50000)"
  unfolding searchRadius_def by (rule Math_min_max_range)

text \<open>
  The clamp keeps every number in \<open>[10000, 50000]\<close>; what it lets through is NaN. The
  radius is NaN as soon as the Haversine term exceeds one by so much that one minus the
  term rounds to a negative number: its square root is NaN, and NaN passes through the
  arctangent, the products, the division and the clamp.
\<close>

lemma searchRadius_nan_above_one:
  assumes "haversineA e b = Num a" and "roundDouble e (1 - a) < 0"
  shows "searchRadius e b = NaN"
  using assms
  by (simp add: searchRadius_def diagonalDistance_def Let_def num_sub_def Math_sqrt_def
      Math_atan2_def num_mul_def num_div_def Math_max_def Math_min_def split: jsnum.splits)

lemma ieeeEnv_fields:
  "roundDouble ieeeEnv = ieeeRound" "sinDouble ieeeEnv = ieeeSin" "cosDouble ieeeEnv = ieeeCos"
  "checkApiKey ieeeEnv = Inr ''key''"
  "fetchPlaces ieeeEnv w req = Json demoPlaces"
  by (simp_all add: ieeeEnv_def demoEnv_def checkApiKey_def falsy_str_def)

lemma ieee_haversineA:
  "haversineA ieeeEnv nearAntipodalBounds = Num (1 + 1 / 4503599627370496)"
  by (simp add: haversineA_def Let_def nearAntipodalBounds_def LATITUDE_0_08_def MATH_PI_def
      num_add_def num_sub_def num_mul_def num_div_def Math_sin_def Math_cos_def
      ieeeEnv_fields ieeeRound_def ieeeSin_def ieeeCos_def)

lemma ieee_findAttractionsNearCoordinate:
  "findAttractionsNearCoordinate ieeeEnv center radius w =
     (Inr [museumAttraction, harborAttraction],
      w @ [PlacesRequest center radius PLACES_KEYWORD ''key''])"
  by (simp add: findAttractionsNearCoordinate_def ieeeEnv_fields demo_placesBody Let_def)

lemma ieee_one_minus_term: "roundDouble ieeeEnv (1 - (1 + 1 / 4503599627370496)) < 0"
  by (simp add: ieeeEnv_fields ieeeRound_def)

lemma nearAntipodal_center: "centerCoord nearAntipodalBounds = \<lparr>lat = 0, lng = 0\<rparr>"
  by (simp add: centerCoord_def nearAntipodalBounds_def)

text \<open>
  Claim C2. The radius is not always in \<open>[10000, 50000]\<close>. For the bounding box with
  corners \<open>(-0.08, -90)\<close> and \<open>(0.08, 90)\<close>, in binary64 arithmetic, the Haversine term
  comes out as \<open>1 + 1 / 4503599627370496\<close>, one minus the term is negative, and the
  radius of the nearby search that \<open>findAttractionsNearRoute\<close> issues is NaN. The code
  clamps the radius, as
  the claim says it must, but does not keep the Haversine term within \<open>[0, 1]\<close> before
  taking the root of one minus it.
\<close>

theorem radius_is_nan_for_near_antipodal_bounds:
  "haversineA ieeeEnv nearAntipodalBounds = Num (1 + 1 / 4503599627370496)
   \<and> searchRadius ieeeEnv nearAntipodalBounds = NaN
   \<and> findAttractionsNearRoute ieeeEnv (demoRoute\<lparr>bounds := Some nearAntipodalBounds\<rparr>) [] =
       (Inr [museumAttraction, harborAttraction],
        [PlacesRequest \<lparr>lat = 0, lng = 0\<rparr> NaN PLACES_KEYWORD ''key''])"
proof -
  have r: "searchRadius ieeeEnv nearAntipodalBounds = NaN"
    using ieee_haversineA ieee_one_minus_term by (rule searchRadius_nan_above_one)
  have b: "bounds (demoRoute\<lparr>bounds := Some nearAntipodalBounds\<rparr>) = Some nearAntipodalBounds"
    by simp
  have "findAttractionsNearRoute ieeeEnv (demoRoute\<lparr>bounds := Some nearAntipodalBounds\<rparr>) [] =
       (Inr [museumAttraction, harborAttraction],
        [PlacesRequest \<lparr>lat = 0, lng = 0\<rparr> NaN PLACES_KEYWORD ''key''])"
    unfolding nearRoute_bounds[OF b] r nearAntipodal_center ieee_findAttractionsNearCoordinate
    by (simp add: Math_round_def)
  with ieee_haversineA r show ?thesis by (intro conjI)
qed

subsection \<open>The flow\<close>

lemma flowBody_stages:
  assumes "getCoordinatesFromAddress e (originAddress input) w = (Inr originCoord, w1)"
    and "getCoordinatesFromAddress e (destinationAddress input) w1 = (Inr destinationCoord, w2)"
    and "findShortestRoute e originCoord destinationCoord
           (Some (case waypoints input of None \<Rightarrow> [] | Some ids \<Rightarrow> map (\<lambda>id. ''place_id:'' @ id) ids))
           w2 = (Inr rt, w3)"
    and "getWeatherForecast originCoord = Inr forecast"
    and "findAttractionsNearRoute e rt w3 = (Inr nearby, w4)"
  shows "flowBody e input w =
     (case generateTripPlanPrompt e w4 (promptInput e input rt forecast nearby) of
        Threw err \<Rightarrow> (Inl err, w4 @ [PromptRequest (promptInput e input rt forecast nearby)])
      | Json output \<Rightarrow>
          if incompleteOutput output then
            (Inl (JsError ''AI failed to generate a valid suggestion or reasoning.''),
             w4 @ [PromptRequest (promptInput e input rt forecast nearby)])
          else
            (Inr \<lparr>o_originAddress = originAddress input,
                  o_destinationAddress = destinationAddress input,
                  suggestedDepartureTime = the (po_suggestedDepartureTime (the output)),
                  reasoning = the (po_reasoning (the output)),
                  route = rt,
                  weatherForecast = forecast,
                  nearbyAttractions = nearby\<rparr>,
             w4 @ [PromptRequest (promptInput e input rt forecast nearby)]))"
  unfolding flowBody_def
  by (simp only: assms prod.case sum.case Let_def)

lemma checkApiKey_ignores_prompt:
  "checkApiKey (e\<lparr>generateTripPlanPrompt := p\<rparr>) = checkApiKey e"
  by (simp add: checkApiKey_def)

lemma directionsBody_ignores_prompt:
  "directionsBody (e\<lparr>generateTripPlanPrompt := p\<rparr>) wps data = directionsBody e wps data"
  by (simp add: directionsBody_def Let_def split: option.splits list.splits)

lemma services_ignore_prompt:
  "getCoordinatesFromAddress (e\<lparr>generateTripPlanPrompt := p\<rparr>) address w =
     getCoordinatesFromAddress e address w"
  "findShortestRoute (e\<lparr>generateTripPlanPrompt := p\<rparr>) origin destination wps w =
     findShortestRoute e origin destination wps w"
  "findAttractionsNearCoordinate (e\<lparr>generateTripPlanPrompt := p\<rparr>) center radius w =
     findAttractionsNearCoordinate e center radius w"
  by (simp_all add: getCoordinatesFromAddress_def findShortestRoute_def
      findAttractionsNearCoordinate_def checkApiKey_ignores_prompt directionsBody_ignores_prompt
      Let_def split: sum.splits fetched.splits)

lemma searchRadius_ignores_prompt:
  "searchRadius (e\<lparr>generateTripPlanPrompt := p\<rparr>) b = searchRadius e b"
  by (simp add: searchRadius_def diagonalDistance_def haversineA_def num_add_def num_sub_def
      num_mul_def num_div_def Math_sqrt_def Math_sin_def Math_cos_def Math_atan2_def)

lemma nearRoute_ignores_prompt:
  "findAttractionsNearRoute (e\<lparr>generateTripPlanPrompt := p\<rparr>) rt w =
     findAttractionsNearRoute e rt w"
  by (simp add: findAttractionsNearRoute_def services_ignore_prompt searchRadius_ignores_prompt
      Let_def split: option.splits)

lemma demo_geocode:
  "getCoordinatesFromAddress demoEnv address w =
     (Inr \<lparr>lat = 0, lng = 0\<rparr>, w @ [GeocodeRequest address ''key''])"
  by (simp add: getCoordinatesFromAddress_def demo_checkApiKey demoEnv_fields Let_def
      geocodeBody_def demoGeocode_def)

lemma demo_weather: "getWeatherForecast loc = Inr demoForecast"
  by (simp add: getWeatherForecast_def demoForecast_def)

lemma demo_nearRoute:
  "findAttractionsNearRoute demoEnv demoRoute w =
     (Inr [museumAttraction, harborAttraction],
      w @ [PlacesRequest (centerCoord demoBounds)
             (Math_round (searchRadius demoEnv demoBounds)) PLACES_KEYWORD ''key''])"
  unfolding nearRoute_bounds[OF demoRoute_bounds] demo_findAttractionsNearCoordinate
  by (simp only: prod.case sum.case)

lemma demo_waypointsParam:
  "(case waypoints demoInput of None \<Rightarrow> [] | Some ids \<Rightarrow> map (\<lambda>id. ''place_id:'' @ id) ids)
     = [''place_id:pA'']"
  by (simp add: demoInput_def)

lemma demo_promptCandidates:
  "promptCandidates demoInput [museumAttraction, harborAttraction] = [harborAttraction]"
  by (simp add: promptCandidates_def demoInput_def waypointsInclude_def str_or_def
      museumAttraction_def harborAttraction_def)

lemma emptyTime_incomplete:
  "generateTripPlanPrompt emptyTimeEnv w pin =
     Json (Some (demoOutput\<lparr>po_suggestedDepartureTime := Some []\<rparr>))
   \<and> incompleteOutput (Some (demoOutput\<lparr>po_suggestedDepartureTime := Some []\<rparr>))"
  by (simp add: emptyTimeEnv_def incompleteOutput_def falsy_str_def)

subsection \<open>Incomplete recommendations\<close>

text \<open>
  Claim C8. Once both addresses are geocoded, the route is found, the weather is read and
  the attraction search has returned, an answer of the reasoning engine that is absent,
  or whose suggested departure time or reasoning is absent or empty, makes the flow throw
  \<^verbatim>\<open>Trip plan generation failed: AI failed to generate a valid suggestion or reasoning.\<close>
  The flow returns no result and puts no text of its own in place of the missing field.
\<close>

theorem incomplete_recommendation_fails:
  assumes "getCoordinatesFromAddress e (originAddress input) w = (Inr originCoord, w1)"
    and "getCoordinatesFromAddress e (destinationAddress input) w1 = (Inr destinationCoord, w2)"
    and "findShortestRoute e originCoord destinationCoord
           (Some (case waypoints input of None \<Rightarrow> [] | Some ids \<Rightarrow> map (\<lambda>id. ''place_id:'' @ id) ids))
           w2 = (Inr rt, w3)"
    and "getWeatherForecast originCoord = Inr forecast"
    and "findAttractionsNearRoute e rt w3 = (Inr nearby, w4)"
    and "generateTripPlanPrompt e w4 (promptInput e input rt forecast nearby) = Json output"
    and "incompleteOutput output"
  shows "generateTripPlanFlow e input w =
           (Inl (JsError ''Trip plan generation failed: AI failed to generate a valid suggestion or reasoning.''),
            w4 @ [PromptRequest (promptInput e input rt forecast nearby)])"
proof -
  have "flowBody e input w =
          (Inl (JsError ''AI failed to generate a valid suggestion or reasoning.''),
           w4 @ [PromptRequest (promptInput e input rt forecast nearby)])"
    unfolding flowBody_stages[OF assms(1-5)] using assms(6,7) by simp
  then show ?thesis by (simp add: generateTripPlanFlow_def flowCatch_def)
qed

theorem incomplete_recommendation_fails_witness:
  "generateTripPlanFlow emptyTimeEnv demoInput [] =
     (Inl (JsError ''Trip plan generation failed: AI failed to generate a valid suggestion or reasoning.''),
      [GeocodeRequest (originAddress demoInput) ''key'',
       GeocodeRequest (destinationAddress demoInput) ''key'',
       DirectionsRequest \<lparr>lat = 0, lng = 0\<rparr> \<lparr>lat = 0, lng = 0\<rparr>
         (waypointsQuery (Some [''place_id:pA''])) ''key'',
       PlacesRequest (centerCoord demoBounds)
         (Math_round (searchRadius demoEnv demoBounds)) PLACES_KEYWORD ''key'',
       PromptRequest (promptInput emptyTimeEnv demoInput demoRoute demoForecast
                        [museumAttraction, harborAttraction])])"
proof -
  let ?w1 = "[GeocodeRequest (originAddress demoInput) ''key'']"
  let ?w2 = "?w1 @ [GeocodeRequest (destinationAddress demoInput) ''key'']"
  let ?w3 = "?w2 @ [DirectionsRequest \<lparr>lat = 0, lng = 0\<rparr> \<lparr>lat = 0, lng = 0\<rparr>
                      (waypointsQuery (Some [''place_id:pA''])) ''key'']"
  let ?w4 = "?w3 @ [PlacesRequest (centerCoord demoBounds)
                      (Math_round (searchRadius demoEnv demoBounds)) PLACES_KEYWORD ''key'']"
  have 1: "getCoordinatesFromAddress emptyTimeEnv (originAddress demoInput) [] =
             (Inr \<lparr>lat = 0, lng = 0\<rparr>, ?w1)"
    unfolding emptyTimeEnv_def services_ignore_prompt demo_geocode by simp
  have 2: "getCoordinatesFromAddress emptyTimeEnv (destinationAddress demoInput) ?w1 =
             (Inr \<lparr>lat = 0, lng = 0\<rparr>, ?w2)"
    unfolding emptyTimeEnv_def services_ignore_prompt demo_geocode by simp
  have 3: "findShortestRoute emptyTimeEnv \<lparr>lat = 0, lng = 0\<rparr> \<lparr>lat = 0, lng = 0\<rparr>
             (Some (case waypoints demoInput of None \<Rightarrow> []
                    | Some ids \<Rightarrow> map (\<lambda>id. ''place_id:'' @ id) ids)) ?w2 =
             (Inr demoRoute, ?w3)"
    unfolding emptyTimeEnv_def services_ignore_prompt demo_findShortestRoute demo_waypointsParam
    by (rule refl)
  have 4: "getWeatherForecast \<lparr>lat = 0, lng = 0\<rparr> = Inr demoForecast" by (rule demo_weather)
  have 5: "findAttractionsNearRoute emptyTimeEnv demoRoute ?w3 =
             (Inr [museumAttraction, harborAttraction], ?w4)"
    unfolding emptyTimeEnv_def nearRoute_ignores_prompt demo_nearRoute by (rule refl)
  note 6 = emptyTime_incomplete[THEN conjunct1] and 7 = emptyTime_incomplete[THEN conjunct2]
  from incomplete_recommendation_fails[OF 1 2 3 4 5 6 7]
  show ?thesis by (simp only: append_Cons append_Nil)
qed

subsection \<open>What the reasoning engine and the caller receive\<close>

lemma promptCandidates_props:
  "subseq (promptCandidates input nearby) nearby
   \<and> length (promptCandidates input nearby) \<le> 5
   \<and> (\<forall>att\<in>set (promptCandidates input nearby).
         \<forall>ws p. waypoints input = Some ws \<and> placeId att = Some p \<longrightarrow> p \<notin> set ws)"
proof (intro conjI ballI allI impI)
  show "subseq (promptCandidates input nearby) nearby"
    unfolding promptCandidates_def by (rule take_filter_subseq)
  show "length (promptCandidates input nearby) \<le> 5"
    by (simp add: promptCandidates_def)
next
  fix att ws p
  assume a: "att \<in> set (promptCandidates input nearby)"
    and b: "waypoints input = Some ws \<and> placeId att = Some p"
  from a have "att \<in> set (filter (\<lambda>att. \<not> waypointsInclude (waypoints input) (str_or (placeId att) [])) nearby)"
    unfolding promptCandidates_def by (rule in_set_takeD)
  then have "\<not> waypointsInclude (waypoints input) (str_or (placeId att) [])" by simp
  with b show "p \<notin> set ws" by (simp add: waypointsInclude_def str_or_def split: if_splits)
qed

text \<open>
  Claim C9. Once the five lookups have succeeded, the flow calls the reasoning engine with
  \<open>promptInput\<close>, whose attraction list is the condensed form of at most five attractions,
  taken in order from the attractions found, none of which has a place identifier among
  the requested stops. If the flow then succeeds, its result carries the route, the
  weather forecast and the whole list of attractions found, unfiltered.
\<close>

theorem prompt_gets_condensed_result_gets_full:
  assumes "getCoordinatesFromAddress e (originAddress input) w = (Inr originCoord, w1)"
    and "getCoordinatesFromAddress e (destinationAddress input) w1 = (Inr destinationCoord, w2)"
    and "findShortestRoute e originCoord destinationCoord
           (Some (case waypoints input of None \<Rightarrow> [] | Some ids \<Rightarrow> map (\<lambda>id. ''place_id:'' @ id) ids))
           w2 = (Inr rt, w3)"
    and "getWeatherForecast originCoord = Inr forecast"
    and "findAttractionsNearRoute e rt w3 = (Inr nearby, w4)"
  shows "snd (generateTripPlanFlow e input w) =
           w4 @ [PromptRequest (promptInput e input rt forecast nearby)]
   \<and> pi_attractions (promptInput e input rt forecast nearby) =
        map condense (promptCandidates input nearby)
   \<and> subseq (promptCandidates input nearby) nearby
   \<and> length (pi_attractions (promptInput e input rt forecast nearby)) \<le> 5
   \<and> (\<forall>att\<in>set (promptCandidates input nearby).
         \<forall>ws p. waypoints input = Some ws \<and> placeId att = Some p \<longrightarrow> p \<notin> set ws)
   \<and> (\<forall>result. fst (generateTripPlanFlow e input w) = Inr result \<longrightarrow>
         route result = rt \<and> weatherForecast result = forecast
         \<and> nearbyAttractions result = nearby)"
proof -
  let ?pin = "promptInput e input rt forecast nearby"
  note fb = flowBody_stages[OF assms]
  have w: "snd (generateTripPlanFlow e input w) = w4 @ [PromptRequest ?pin]"
    unfolding generateTripPlanFlow_def fb
    by (cases "generateTripPlanPrompt e w4 ?pin") simp_all
  have a: "pi_attractions ?pin = map condense (promptCandidates input nearby)"
    by (simp add: promptInput_def)
  have l: "length (pi_attractions ?pin) \<le> 5"
    unfolding a using promptCandidates_props[of input nearby] by simp
  have r: "\<forall>result. fst (generateTripPlanFlow e input w) = Inr result \<longrightarrow>
         route result = rt \<and> weatherForecast result = forecast
         \<and> nearbyAttractions result = nearby"
    unfolding generateTripPlanFlow_def fb
    by (cases "generateTripPlanPrompt e w4 ?pin") (auto split: if_splits)
  from w a l r promptCandidates_props[of input nearby] show ?thesis by blast
qed

lemma demo_flowBody:
  "fst (flowBody demoEnv demoInput []) = Inr demoResult"
proof -
  let ?w1 = "[GeocodeRequest (originAddress demoInput) ''key'']"
  let ?w2 = "?w1 @ [GeocodeRequest (destinationAddress demoInput) ''key'']"
  let ?w3 = "?w2 @ [DirectionsRequest \<lparr>lat = 0, lng = 0\<rparr> \<lparr>lat = 0, lng = 0\<rparr>
                      (waypointsQuery (Some [''place_id:pA''])) ''key'']"
  have 1: "getCoordinatesFromAddress demoEnv (originAddress demoInput) [] =
             (Inr \<lparr>lat = 0, lng = 0\<rparr>, [] @ ?w1)"
    by (rule demo_geocode)
  have 2: "getCoordinatesFromAddress demoEnv (destinationAddress demoInput) ([] @ ?w1) =
             (Inr \<lparr>lat = 0, lng = 0\<rparr>, ([] @ ?w1) @ [GeocodeRequest (destinationAddress demoInput) ''key''])"
    by (rule demo_geocode)
  have 3: "findShortestRoute demoEnv \<lparr>lat = 0, lng = 0\<rparr> \<lparr>lat = 0, lng = 0\<rparr>
             (Some (case waypoints demoInput of None \<Rightarrow> []
                    | Some ids \<Rightarrow> map (\<lambda>id. ''place_id:'' @ id) ids))
             (([] @ ?w1) @ [GeocodeRequest (destinationAddress demoInput) ''key'']) =
             (Inr demoRoute, (([] @ ?w1) @ [GeocodeRequest (destinationAddress demoInput) ''key'']) @
                [DirectionsRequest \<lparr>lat = 0, lng = 0\<rparr> \<lparr>lat = 0, lng = 0\<rparr>
                      (waypointsQuery (Some (case waypoints demoInput of None \<Rightarrow> []
                    | Some ids \<Rightarrow> map (\<lambda>id. ''place_id:'' @ id) ids))) ''key''])"
    by (rule demo_findShortestRoute)
  note 5 = demo_nearRoute
  show ?thesis
    unfolding flowBody_stages[OF 1 2 3 demo_weather 5]
    by (simp add: demoEnv_fields incompleteOutput_def falsy_str_def demoOutput_def demoResult_def
        demoInput_def)
qed

theorem prompt_gets_condensed_result_gets_full_witness:
  "pi_attractions (promptInput demoEnv demoInput demoRoute demoForecast
                     [museumAttraction, harborAttraction]) = [condense harborAttraction]
   \<and> placeId museumAttraction = Some ''pA'' \<and> waypoints demoInput = Some [''pA'']
   \<and> fst (generateTripPlanFlow demoEnv demoInput []) = Inr demoResult
   \<and> route demoResult = demoRoute \<and> weatherForecast demoResult = demoForecast
   \<and> nearbyAttractions demoResult = [museumAttraction, harborAttraction]"
proof -
  let ?w1 = "[] @ [GeocodeRequest (originAddress demoInput) ''key'']"
  let ?w2 = "?w1 @ [GeocodeRequest (destinationAddress demoInput) ''key'']"
  let ?wps = "Some (case waypoints demoInput of None \<Rightarrow> []
                    | Some ids \<Rightarrow> map (\<lambda>id. ''place_id:'' @ id) ids)"
  let ?w3 = "?w2 @ [DirectionsRequest \<lparr>lat = 0, lng = 0\<rparr> \<lparr>lat = 0, lng = 0\<rparr>
                      (waypointsQuery ?wps) ''key'']"
  have 1: "getCoordinatesFromAddress demoEnv (originAddress demoInput) [] =
             (Inr \<lparr>lat = 0, lng = 0\<rparr>, ?w1)"
    by (rule demo_geocode)
  have 2: "getCoordinatesFromAddress demoEnv (destinationAddress demoInput) ?w1 =
             (Inr \<lparr>lat = 0, lng = 0\<rparr>, ?w2)"
    by (rule demo_geocode)
  have 3: "findShortestRoute demoEnv \<lparr>lat = 0, lng = 0\<rparr> \<lparr>lat = 0, lng = 0\<rparr> ?wps ?w2 =
             (Inr demoRoute, ?w3)"
    by (rule demo_findShortestRoute)
  have f: "fst (generateTripPlanFlow demoEnv demoInput []) = Inr demoResult"
    using demo_flowBody
    by (cases "flowBody demoEnv demoInput []") (simp add: generateTripPlanFlow_def)
  have m: "placeId museumAttraction = Some ''pA'' \<and> waypoints demoInput = Some [''pA'']"
    by (simp add: museumAttraction_def demoInput_def)
  from prompt_gets_condensed_result_gets_full[OF 1 2 3 demo_weather demo_nearRoute]
  have "pi_attractions (promptInput demoEnv demoInput demoRoute demoForecast
                          [museumAttraction, harborAttraction]) =
          map condense (promptCandidates demoInput [museumAttraction, harborAttraction])
        \<and> (\<forall>result. fst (generateTripPlanFlow demoEnv demoInput []) = Inr result \<longrightarrow>
               route result = demoRoute \<and> weatherForecast result = demoForecast
               \<and> nearbyAttractions result = [museumAttraction, harborAttraction])"
    by blast
  with f m show ?thesis by (simp add: demo_promptCandidates)
qed

end
